theory Spec2Isabelle
  imports Complex_Main "HOL-Library.AList" "HOL-Library.Log_Nat"
begin

section \<open>Floating-point values\<close>

text \<open>
  The program computes on Python and NumPy floats.  A float is modelled as a real number, or
  one of the two infinities, or NaN (pandas' marker for a missing value).  The operations
  of this section are exact on finite values: they do not round or overflow.  The section
  on double precision below adds the rounding, for the functions whose decisions depend
  on the last bit.  The sign of zero is not modelled.  Comparisons with NaN are false, as
  in IEEE 754.
\<close>

datatype fval = Fin real | PInf | NInf | NaN

fun isna :: "fval \<Rightarrow> bool" where
  "isna NaN = True"
| "isna _ = False"

text \<open>\<open>flt x y\<close> is the source's \<open>x < y\<close>, \<open>fle x y\<close> its \<open>x <= y\<close>.\<close>

fun flt :: "fval \<Rightarrow> fval \<Rightarrow> bool" where
  "flt NaN _ = False"
| "flt _ NaN = False"
| "flt (Fin a) (Fin b) = (a < b)"
| "flt (Fin a) PInf = True"
| "flt (Fin a) NInf = False"
| "flt PInf _ = False"
| "flt NInf NInf = False"
| "flt NInf _ = True"

fun fle :: "fval \<Rightarrow> fval \<Rightarrow> bool" where
  "fle NaN _ = False"
| "fle _ NaN = False"
| "fle (Fin a) (Fin b) = (a \<le> b)"
| "fle (Fin a) PInf = True"
| "fle (Fin a) NInf = False"
| "fle PInf PInf = True"
| "fle PInf _ = False"
| "fle NInf _ = True"

abbreviation fgt :: "fval \<Rightarrow> fval \<Rightarrow> bool" where
  "fgt x y \<equiv> flt y x"

abbreviation fge :: "fval \<Rightarrow> fval \<Rightarrow> bool" where
  "fge x y \<equiv> fle y x"

fun fneg :: "fval \<Rightarrow> fval" where
  "fneg (Fin a) = Fin (- a)"
| "fneg PInf = NInf"
| "fneg NInf = PInf"
| "fneg NaN = NaN"

fun fadd :: "fval \<Rightarrow> fval \<Rightarrow> fval" where
  "fadd NaN _ = NaN"
| "fadd _ NaN = NaN"
| "fadd (Fin a) (Fin b) = Fin (a + b)"
| "fadd (Fin a) PInf = PInf"
| "fadd (Fin a) NInf = NInf"
| "fadd PInf NInf = NaN"
| "fadd PInf _ = PInf"
| "fadd NInf PInf = NaN"
| "fadd NInf _ = NInf"

definition fsub :: "fval \<Rightarrow> fval \<Rightarrow> fval" where
  "fsub x y = fadd x (fneg y)"

text \<open>The sign of a value, used by multiplication and division: -1, 0 or 1.\<close>

fun fsign :: "fval \<Rightarrow> int" where
  "fsign (Fin a) = (if a < 0 then -1 else if a = 0 then 0 else 1)"
| "fsign PInf = 1"
| "fsign NInf = -1"
| "fsign NaN = 0"

definition inf_of_sign :: "int \<Rightarrow> fval" where
  "inf_of_sign s = (if s < 0 then NInf else if s = 0 then NaN else PInf)"

fun fmul :: "fval \<Rightarrow> fval \<Rightarrow> fval" where
  "fmul NaN _ = NaN"
| "fmul _ NaN = NaN"
| "fmul (Fin a) (Fin b) = Fin (a * b)"
| "fmul x y = inf_of_sign (fsign x * fsign y)"

text \<open>
  NumPy's float division: dividing by zero raises no exception; it yields an infinity, or
  NaN for \<open>0/0\<close>.
\<close>

fun fdiv :: "fval \<Rightarrow> fval \<Rightarrow> fval" where
  "fdiv NaN _ = NaN"
| "fdiv _ NaN = NaN"
| "fdiv (Fin a) (Fin b) = (if b = 0 then inf_of_sign (fsign (Fin a)) else Fin (a / b))"
| "fdiv (Fin a) _ = Fin 0"
| "fdiv x (Fin b) = inf_of_sign (fsign x * (if b < 0 then -1 else 1))"
| "fdiv _ _ = NaN"

fun fabs :: "fval \<Rightarrow> fval" where
  "fabs (Fin a) = Fin \<bar>a\<bar>"
| "fabs NaN = NaN"
| "fabs _ = PInf"

text \<open>
  Python's built-in \<open>min(a, b)\<close> keeps \<open>a\<close> unless \<open>b < a\<close>, and \<open>max(a, b)\<close> keeps
  \<open>a\<close> unless \<open>b > a\<close>; so a NaN first argument is returned as it is.
\<close>

definition py_min :: "fval \<Rightarrow> fval \<Rightarrow> fval" where
  "py_min a b = (if flt b a then b else a)"

definition py_max :: "fval \<Rightarrow> fval \<Rightarrow> fval" where
  "py_max a b = (if fgt b a then b else a)"

section \<open>Floating-point values: double precision\<close>

text \<open>
  Python's floats are IEEE 754 binary64 numbers, and every operation returns the exact
  result rounded to the nearest such number, ties to the one with an even significand.
  \<open>binade x\<close> is the exponent \<open>e\<close> with \<open>2^e \<le> |x| < 2^(e+1)\<close>, and -1022 for the
  subnormal range and zero; the doubles of that binade are the multiples of
  \<open>2^(e-52)\<close>.  A result that rounds to \<open>2^1024\<close> or beyond is an infinity.
\<close>

definition round_half_even :: "real \<Rightarrow> int" where
  "round_half_even x =
     (let n = \<lfloor>x\<rfloor>; d = x - of_int n
      in if d < 1/2 then n else if 1/2 < d then n + 1 else if even n then n else n + 1)"

definition binade :: "real \<Rightarrow> int" where
  "binade x = max (bitlen \<lfloor>\<bar>x\<bar> * 2 ^ 1074\<rfloor> - 1075) (- 1022)"

definition b64 :: "real \<Rightarrow> fval" where
  "b64 x =
     (let ulp = 2 powi (binade x - 52);
          r = of_int (round_half_even (\<bar>x\<bar> / ulp)) * ulp
      in if 2 ^ 1024 \<le> r then (if x < 0 then NInf else PInf)
         else Fin (if x < 0 then - r else r))"

text \<open>
  A decimal literal of the source, such as \<open>0.3\<close>, is the double nearest to it:
  \<open>b64 (3/10)\<close>.  The rounded operations on doubles:
\<close>

definition round64 :: "fval \<Rightarrow> fval" where
  "round64 v = (case v of Fin x \<Rightarrow> b64 x | PInf \<Rightarrow> PInf | NInf \<Rightarrow> NInf | NaN \<Rightarrow> NaN)"

definition dadd :: "fval \<Rightarrow> fval \<Rightarrow> fval" where
  "dadd x y = round64 (fadd x y)"

definition dsub :: "fval \<Rightarrow> fval \<Rightarrow> fval" where
  "dsub x y = round64 (fsub x y)"

definition dmul :: "fval \<Rightarrow> fval \<Rightarrow> fval" where
  "dmul x y = round64 (fmul x y)"

text \<open>
  The built-in \<open>sum\<close> on numbers: it starts from 0 and adds the items from left to right,
  in floats as soon as an item is a float.  (From Python 3.12 on, \<open>sum\<close> compensates the
  rounding errors of the additions, which can change the last bit of the result.)
\<close>

definition py_sum :: "fval list \<Rightarrow> fval" where
  "py_sum xs = fold (\<lambda>x acc. dadd acc x) xs (Fin 0)"

section \<open>Turtle strategy: combining the two systems\<close>

text \<open>
  The result dictionary of \<open>TurtleTradingStrategy._analyze_system\<close>.  The prices and
  breakout levels are \<open>None\<close> until the function sets them.
\<close>

record system_result =
  entry_signal :: string
  exit_signal :: string
  entry_price :: "fval option"
  exit_price :: "fval option"
  breakout_high :: "fval option"
  breakout_low :: "fval option"
  exit_high :: "fval option"
  exit_low :: "fval option"
  confidence :: fval

definition combine_signals :: "system_result \<Rightarrow> system_result \<Rightarrow> string" where
  "combine_signals system1 system2 =
     (if entry_signal system2 \<noteq> ''NONE'' then entry_signal system2
      else if entry_signal system1 \<noteq> ''NONE'' \<and> fgt (confidence system1) (Fin 0.6)
        then entry_signal system1
      else if exit_signal system2 \<noteq> ''NONE'' then ''EXIT''
      else if exit_signal system1 \<noteq> ''NONE'' then ''EXIT''
      else ''HOLD'')"

section \<open>Turtle strategy: parameters and price data\<close>

text \<open>The entries of \<open>TurtleTradingStrategy.params\<close> that the modelled functions read.\<close>

record turtle_params =
  system1_entry_period :: nat
  system1_exit_period :: nat
  system2_entry_period :: nat
  system2_exit_period :: nat
  atr_period :: nat
  stop_loss_atr_multiple :: real
  position_risk_pct :: real
  total_capital :: real
  unit_limit_single :: real

definition params :: turtle_params where
  "params = \<lparr> system1_entry_period = 20, system1_exit_period = 10,
              system2_entry_period = 55, system2_exit_period = 20,
              atr_period = 20, stop_loss_atr_multiple = 2,
              position_risk_pct = 0.02, total_capital = 100000,
              unit_limit_single = 0.05 \<rparr>"

text \<open>
  A price DataFrame: one row per trading day, oldest first.  \<open>has_volume\<close> says whether
  the frame has a \<open>volume\<close> column (\<open>'volume' in price_data.columns\<close>).
\<close>

record bar =
  high :: fval
  low :: fval
  close :: fval
  volume :: fval

record price_data =
  bars :: "bar list"
  has_volume :: bool

text \<open>\<open>series.iloc[-1]\<close>: the last element; on an empty series Python raises IndexError.\<close>

definition iloc_last :: "'a list \<Rightarrow> 'a option" where
  "iloc_last xs = (if xs = [] then None else Some (last xs))"

text \<open>
  Division of Python floats, \<open>x / y\<close>: a zero divisor raises ZeroDivisionError.  (With a
  NumPy operand the same division gives an infinity or NaN and a warning instead; the
  function below never reaches a zero divisor, so the difference is not observed.)
\<close>

datatype py_exception = IndexError | ZeroDivisionError

definition py_div :: "fval \<Rightarrow> fval \<Rightarrow> py_exception + fval" where
  "py_div x y = (if y = Fin 0 then Inl ZeroDivisionError else Inr (fdiv x y))"

text \<open>
  \<open>_calculate_position_size\<close>.  \<open>position_size_body\<close> is the body of its \<open>try\<close>, with the
  exceptions it can raise: the IndexError of \<open>iloc[-1]\<close> on an empty frame, and the
  ZeroDivisionError of the two divisions.  The handler returns 0.05 for every exception.
\<close>

definition position_size_body ::
  "turtle_params \<Rightarrow> price_data \<Rightarrow> fval \<Rightarrow> py_exception + fval" where
  "position_size_body p pd atr =
     (case iloc_last (map close (bars pd)) of
        None \<Rightarrow> Inl IndexError
      | Some current_price \<Rightarrow>
          if fle atr (Fin 0) \<or> fle current_price (Fin 0) then Inr (Fin 0.05)
          else
            let risk_amount = Fin (total_capital p * position_risk_pct p);
                dollar_volatility = atr
            in (case py_div risk_amount dollar_volatility of
                  Inl e \<Rightarrow> Inl e
                | Inr position_value \<Rightarrow>
                    (case py_div position_value (Fin (total_capital p)) of
                       Inl e \<Rightarrow> Inl e
                     | Inr position_size \<Rightarrow>
                         let max_position = Fin (unit_limit_single p)
                         in Inr (py_min position_size max_position))))"

definition calculate_position_size :: "turtle_params \<Rightarrow> price_data \<Rightarrow> fval \<Rightarrow> fval" where
  "calculate_position_size p pd atr =
     (case position_size_body p pd atr of
        Inl e \<Rightarrow> Fin 0.05
      | Inr position_size \<Rightarrow> position_size)"

text \<open>A frame of one day, for examples.\<close>

definition one_day_frame :: price_data where
  "one_day_frame =
     \<lparr> bars = [\<lparr> high = Fin 11, low = Fin 10, close = Fin 10.5, volume = Fin 1000 \<rparr>],
       has_volume = True \<rparr>"

section \<open>Turtle strategy: breakout analysis\<close>

text \<open>
  pandas' \<open>max()\<close>, \<open>min()\<close> and \<open>mean()\<close> of a series skip NaN values; the result is NaN
  when no value is left.
\<close>

definition pd_max :: "fval list \<Rightarrow> fval" where
  "pd_max xs =
     (case filter (\<lambda>x. \<not> isna x) xs of
        [] \<Rightarrow> NaN
      | y # ys \<Rightarrow> fold (\<lambda>x m. if fgt x m then x else m) ys y)"

definition pd_min :: "fval list \<Rightarrow> fval" where
  "pd_min xs =
     (case filter (\<lambda>x. \<not> isna x) xs of
        [] \<Rightarrow> NaN
      | y # ys \<Rightarrow> fold (\<lambda>x m. if flt x m then x else m) ys y)"

definition pd_mean :: "fval list \<Rightarrow> fval" where
  "pd_mean xs =
     (case filter (\<lambda>x. \<not> isna x) xs of
        [] \<Rightarrow> NaN
      | ys \<Rightarrow> fdiv (fold (\<lambda>x acc. fadd acc x) ys (Fin 0)) (Fin (real (length ys))))"

text \<open>
  \<open>series.iloc[-(p+1):-1]\<close>: the \<open>p\<close> rows before the last one (fewer when the series is
  shorter; a start before the first row is clamped to it).  \<open>series.tail(n)\<close>: the last
  \<open>n\<close> rows.
\<close>

definition iloc_window :: "nat \<Rightarrow> 'a list \<Rightarrow> 'a list" where
  "iloc_window p xs =
     (let n = length xs; start = n - (p + 1); stop = n - 1
      in take (stop - start) (drop start xs))"

definition tail :: "nat \<Rightarrow> 'a list \<Rightarrow> 'a list" where
  "tail n xs = drop (length xs - n) xs"

text \<open>
  \<open>_calculate_breakout_strength\<close>.  The body is inside \<open>try\<close>, and the handler returns
  0.5: that is where the IndexError of \<open>iloc[-1]\<close> on an empty frame ends.  The prices are
  NumPy floats, whose division by zero raises nothing, so no other step can raise.
\<close>

definition calculate_breakout_strength :: "price_data \<Rightarrow> fval \<Rightarrow> bool \<Rightarrow> fval" where
  "calculate_breakout_strength pd breakout_level is_upward =
     (case iloc_last (map close (bars pd)) of
        None \<Rightarrow> Fin 0.5
      | Some current_price \<Rightarrow>
          let current_volume = (if has_volume pd then last (map volume (bars pd)) else Fin 0);
              breakout_pct =
                (if is_upward then fdiv (fsub current_price breakout_level) breakout_level
                 else fdiv (fsub breakout_level current_price) breakout_level);
              avg_volume =
                (if has_volume pd then pd_mean (tail 20 (map volume (bars pd))) else Fin 1);
              volume_ratio =
                (if fgt avg_volume (Fin 0) then fdiv current_volume avg_volume else Fin 1);
              base_confidence = py_min (fmul breakout_pct (Fin 10)) (Fin 0.5);
              volume_boost = py_min (fmul (fsub volume_ratio (Fin 1)) (Fin 0.1)) (Fin 0.3);
              confidence = py_min (fadd (fadd base_confidence volume_boost) (Fin 0.3)) (Fin 0.9)
          in py_max confidence (Fin 0.1))"

text \<open>
  \<open>_analyze_system\<close>.  The parameters \<open>symbol\<close> and \<open>atr_data\<close> are not read by the
  source and are left out.
\<close>

definition analyze_system :: "turtle_params \<Rightarrow> int \<Rightarrow> price_data \<Rightarrow> system_result" where
  "analyze_system p system_num pd =
     (let entry_period =
            (if system_num = 1 then system1_entry_period p else system2_entry_period p);
          exit_period =
            (if system_num = 1 then system1_exit_period p else system2_exit_period p);
          system_result =
            \<lparr> entry_signal = ''NONE'', exit_signal = ''NONE'', entry_price = None,
              exit_price = None, breakout_high = None, breakout_low = None,
              exit_high = None, exit_low = None, confidence = Fin 0 \<rparr>
      in if length (bars pd) < entry_period + 1 then system_result
         else
           let current_high = last (map high (bars pd));
               current_low = last (map low (bars pd));
               entry_high = pd_max (iloc_window entry_period (map high (bars pd)));
               entry_low = pd_min (iloc_window entry_period (map low (bars pd)));
               exit_high_v =
                 (if length (bars pd) \<ge> exit_period + 1
                  then pd_max (iloc_window exit_period (map high (bars pd))) else entry_high);
               exit_low_v =
                 (if length (bars pd) \<ge> exit_period + 1
                  then pd_min (iloc_window exit_period (map low (bars pd))) else entry_low);
               system_result = system_result
                 \<lparr> breakout_high := Some entry_high, breakout_low := Some entry_low,
                   exit_high := Some exit_high_v, exit_low := Some exit_low_v \<rparr>;
               system_result =
                 (if fgt current_high entry_high then system_result
                    \<lparr> entry_signal := ''BUY'', entry_price := Some entry_high,
                      confidence := calculate_breakout_strength pd entry_high True \<rparr>
                  else if flt current_low entry_low then system_result
                    \<lparr> entry_signal := ''SELL'', entry_price := Some entry_low,
                      confidence := calculate_breakout_strength pd entry_low False \<rparr>
                  else system_result);
               system_result =
                 (if flt current_low exit_low_v then system_result
                    \<lparr> exit_signal := ''EXIT_LONG'', exit_price := Some exit_low_v \<rparr>
                  else if fgt current_high exit_high_v then system_result
                    \<lparr> exit_signal := ''EXIT_SHORT'', exit_price := Some exit_high_v \<rparr>
                  else system_result)
           in system_result)"

text \<open>
  Example frames of 21 days.  In \<open>breakout_frame v\<close> the first 20 days trade between 9 and
  10 on a volume of 1000, and the last day reaches 11, closes at 10.5 and has the volume
  \<open>v\<close>.  In \<open>zero_frame\<close> the first 20 days are recorded with zero prices and the last day
  reaches 1 and closes at 0.
\<close>

definition breakout_frame :: "fval \<Rightarrow> price_data" where
  "breakout_frame v =
     \<lparr> bars = replicate 20 \<lparr> high = Fin 10, low = Fin 9, close = Fin 9.5, volume = Fin 1000 \<rparr>
              @ [\<lparr> high = Fin 11, low = Fin 10, close = Fin 10.5, volume = v \<rparr>],
       has_volume = True \<rparr>"

definition zero_frame :: price_data where
  "zero_frame =
     \<lparr> bars = replicate 20 \<lparr> high = Fin 0, low = Fin 0, close = Fin 0, volume = Fin 1000 \<rparr>
              @ [\<lparr> high = Fin 1, low = Fin 0, close = Fin 0, volume = Fin 1000 \<rparr>],
       has_volume = True \<rparr>"

section \<open>Retail strategy: the combined decision\<close>

text \<open>
  \<open>RetailStrategy._make_combined_decision\<close>.  The dictionary of traditional signals has
  the three keys \<open>trend\<close>, \<open>technical\<close> and \<open>volume\<close>; \<open>None\<close> stands for a missing or
  empty dictionary (both are false in Python).  Of the turtle recommendation the function
  reads \<open>recommendation\<close> and \<open>confidence\<close>.  The list of human-readable reasons it also
  builds has no influence on score, action or confidence and is left out.  The scores are
  doubles and every operation on them rounds.
\<close>

record retail_params =
  turtle_weight :: fval

record traditional_signals =
  trend :: fval
  technical :: fval
  volume_signal :: fval

record turtle_signals =
  recommendation :: string
  turtle_confidence :: fval

record combined_decision =
  action :: string
  decision_confidence :: fval
  traditional_score :: fval
  turtle_score :: fval
  total_score :: fval

definition make_combined_decision ::
  "retail_params \<Rightarrow> traditional_signals option \<Rightarrow> turtle_signals option \<Rightarrow> combined_decision"
where
  "make_combined_decision p trad turtle =
     (let traditional_score =
            (case trad of
               None \<Rightarrow> Fin 0
             | Some s \<Rightarrow> py_sum [trend s, technical s, volume_signal s]);
          traditional_weight = dsub (Fin 1) (turtle_weight p);
          turtle_score =
            (case turtle of
               None \<Rightarrow> Fin 0
             | Some t \<Rightarrow>
                 if recommendation t \<noteq> ''NO_ACTION'' then
                   (if recommendation t = ''BUY'' then turtle_confidence t
                    else if recommendation t = ''SELL'' then fneg (turtle_confidence t)
                    else if recommendation t = ''EXIT'' then fneg (b64 (8/10))
                    else Fin 0)
                 else Fin 0);
          total_score = dadd (dmul traditional_score traditional_weight)
                             (dmul turtle_score (turtle_weight p))
      in if fgt total_score (b64 (3/10)) then
           \<lparr> action = ''BUY'',
             decision_confidence = py_min (b64 (9/10)) (dadd (b64 (5/10)) (fabs total_score)),
             traditional_score = traditional_score, turtle_score = turtle_score,
             total_score = total_score \<rparr>
         else if flt total_score (fneg (b64 (3/10))) then
           \<lparr> action = ''SELL'',
             decision_confidence = py_min (b64 (9/10)) (dadd (b64 (5/10)) (fabs total_score)),
             traditional_score = traditional_score, turtle_score = turtle_score,
             total_score = total_score \<rparr>
         else
           \<lparr> action = ''HOLD'', decision_confidence = b64 (5/10),
             traditional_score = traditional_score, turtle_score = turtle_score,
             total_score = total_score \<rparr>)"

section \<open>Risk assessment: overall score and level\<close>

text \<open>
  The values of \<open>risk_level\<close>.  The source writes the three grades as the Chinese strings
  for "low risk", "medium risk" and "high risk", and the other states as \<open>'unknown'\<close>,
  \<open>'data_insufficient'\<close> and \<open>'error'\<close>.
\<close>

datatype risk_level = Unknown | Data_insufficient | Error | Low_risk | Medium_risk | High_risk

definition determine_risk_level :: "real \<Rightarrow> risk_level" where
  "determine_risk_level risk_score =
     (if risk_score < 30 then Low_risk
      else if risk_score < 60 then Medium_risk
      else High_risk)"

text \<open>\<open>np.mean\<close> of a list of integer scores.\<close>

definition np_mean :: "int list \<Rightarrow> real" where
  "np_mean xs = real_of_int (sum_list xs) / real (length xs)"

record risk_result =
  risk_level :: risk_level
  risk_score :: real
  risk_factors :: "int list"

text \<open>
  \<open>RiskAssessment.assess_stock_risk\<close>, from the point where the price frame has been
  read: \<open>n\<close> is the number of its rows, and the five integers are the scores that
  the five factor assessments return for it, in the order in which the source appends them
  (volatility, volume, technical, trend, liquidity).  Each assessment catches its own
  exceptions and returns a score in every case.
\<close>

definition assess_stock_risk :: "nat \<Rightarrow> int \<Rightarrow> int \<Rightarrow> int \<Rightarrow> int \<Rightarrow> int \<Rightarrow> risk_result" where
  "assess_stock_risk n volatility_risk volume_risk technical_risk trend_risk liquidity_risk =
     (if n = 0 \<or> n < 10 then
        \<lparr> risk_level = Data_insufficient, risk_score = 0, risk_factors = [] \<rparr>
      else
        let risk_factors =
              [volatility_risk, volume_risk, technical_risk, trend_risk, liquidity_risk];
            risk_score = np_mean risk_factors
        in \<lparr> risk_level = determine_risk_level risk_score, risk_score = risk_score,
             risk_factors = risk_factors \<rparr>)"

section \<open>Signal detector\<close>

text \<open>
  A row of the DataFrame with indicators, restricted to the columns that
  \<open>TechnicalIndicators.get_latest_signals\<close> reads.  The function reads the latest row
  through \<open>latest.get(column)\<close>, which gives \<open>None\<close> for a column the frame does not have,
  and \<open>pd.isna(None)\<close> is true: a missing column behaves as a column of NaN, and is
  modelled so.
\<close>

record indicator_row =
  ma5 :: fval
  ma20 :: fval
  macd :: fval
  macd_signal :: fval
  rsi :: fval
  kdj_k :: fval
  kdj_d :: fval
  row_close :: fval
  boll_upper :: fval
  boll_lower :: fval

text \<open>The keys of the signal dictionary; every key the function stores has the value \<open>True\<close>.\<close>

datatype signal =
    ma_golden_cross | ma_death_cross
  | macd_golden_cross | macd_death_cross
  | rsi_overbought | rsi_oversold
  | kdj_golden_cross | kdj_death_cross
  | boll_breakthrough_upper | boll_breakthrough_lower

text \<open>
  The dictionary is modelled by the list of its keys, in the order of insertion.  No
  comparison of floats raises, so the \<open>except\<close> branch of the source is never entered.
\<close>

definition get_latest_signals :: "indicator_row list \<Rightarrow> signal list" where
  "get_latest_signals df =
     (if df = [] \<or> length df < 2 then []
      else
        let latest = last df;
            prev = df ! (length df - 2);
            signals = [];
            signals =
              (if \<not> isna (ma5 latest) \<and> \<not> isna (ma20 latest) then
                 if fgt (ma5 latest) (ma20 latest) \<and> fle (ma5 prev) (ma20 prev)
                   then signals @ [ma_golden_cross]
                 else if flt (ma5 latest) (ma20 latest) \<and> fge (ma5 prev) (ma20 prev)
                   then signals @ [ma_death_cross]
                 else signals
               else signals);
            signals =
              (if \<not> isna (macd latest) \<and> \<not> isna (macd_signal latest) then
                 if fgt (macd latest) (macd_signal latest) \<and> fle (macd prev) (macd_signal prev)
                   then signals @ [macd_golden_cross]
                 else if flt (macd latest) (macd_signal latest) \<and> fge (macd prev) (macd_signal prev)
                   then signals @ [macd_death_cross]
                 else signals
               else signals);
            signals =
              (if \<not> isna (rsi latest) then
                 if fgt (rsi latest) (Fin 70) then signals @ [rsi_overbought]
                 else if flt (rsi latest) (Fin 30) then signals @ [rsi_oversold]
                 else signals
               else signals);
            signals =
              (if \<not> isna (kdj_k latest) \<and> \<not> isna (kdj_d latest) then
                 if fgt (kdj_k latest) (kdj_d latest) \<and> fle (kdj_k prev) (kdj_d prev)
                   then signals @ [kdj_golden_cross]
                 else if flt (kdj_k latest) (kdj_d latest) \<and> fge (kdj_k prev) (kdj_d prev)
                   then signals @ [kdj_death_cross]
                 else signals
               else signals);
            signals =
              (if \<not> isna (row_close latest) \<and> \<not> isna (boll_upper latest)
                  \<and> \<not> isna (boll_lower latest) then
                 if fgt (row_close latest) (boll_upper latest)
                   then signals @ [boll_breakthrough_upper]
                 else if flt (row_close latest) (boll_lower latest)
                   then signals @ [boll_breakthrough_lower]
                 else signals
               else signals)
        in signals)"

text \<open>
  The vocabulary of the claim about the detector: the columns a signal depends on, whether
  a signal is a crossover (and so compares the previous row too), and the presence of all
  of a signal's columns on a row.
\<close>

fun columns_read :: "signal \<Rightarrow> (indicator_row \<Rightarrow> fval) list" where
  "columns_read ma_golden_cross = [ma5, ma20]"
| "columns_read ma_death_cross = [ma5, ma20]"
| "columns_read macd_golden_cross = [macd, macd_signal]"
| "columns_read macd_death_cross = [macd, macd_signal]"
| "columns_read rsi_overbought = [rsi]"
| "columns_read rsi_oversold = [rsi]"
| "columns_read kdj_golden_cross = [kdj_k, kdj_d]"
| "columns_read kdj_death_cross = [kdj_k, kdj_d]"
| "columns_read boll_breakthrough_upper = [row_close, boll_upper, boll_lower]"
| "columns_read boll_breakthrough_lower = [row_close, boll_upper, boll_lower]"

fun is_cross :: "signal \<Rightarrow> bool" where
  "is_cross rsi_overbought = False"
| "is_cross rsi_oversold = False"
| "is_cross boll_breakthrough_upper = False"
| "is_cross boll_breakthrough_lower = False"
| "is_cross _ = True"

definition present_on :: "signal \<Rightarrow> indicator_row \<Rightarrow> bool" where
  "present_on s r = list_all (\<lambda>c. \<not> isna (c r)) (columns_read s)"

text \<open>Example rows: only the named columns are present, all others are NaN.\<close>

definition rsi_row :: "fval \<Rightarrow> indicator_row" where
  "rsi_row v = \<lparr> ma5 = NaN, ma20 = NaN, macd = NaN, macd_signal = NaN, rsi = v,
                 kdj_k = NaN, kdj_d = NaN, row_close = Fin 10, boll_upper = NaN,
                 boll_lower = NaN \<rparr>"

definition ma_row :: "fval \<Rightarrow> fval \<Rightarrow> indicator_row" where
  "ma_row a b = \<lparr> ma5 = a, ma20 = b, macd = NaN, macd_signal = NaN, rsi = NaN,
                  kdj_k = NaN, kdj_d = NaN, row_close = Fin 10, boll_upper = NaN,
                  boll_lower = NaN \<rparr>"

section \<open>Indicator engine: KDJ\<close>

text \<open>
  \<open>series.rolling(window=k).min()\<close> and \<open>.max()\<close>: the value at row \<open>i\<close> is taken over
  the rows \<open>i-k+1 .. i\<close>; it is NaN when there are fewer than \<open>k\<close> rows up to \<open>i\<close>, and when
  one of the values in the window is missing (the default \<open>min_periods\<close> is the window
  size).  pandas replaces infinite values by NaN before it aggregates a window, so an
  infinite value counts as missing.
\<close>

fun isinf :: "fval \<Rightarrow> bool" where
  "isinf PInf = True"
| "isinf NInf = True"
| "isinf _ = False"

definition window_min :: "fval list \<Rightarrow> fval" where
  "window_min w =
     (if w = [] \<or> list_ex (\<lambda>x. isna x \<or> isinf x) w then NaN
      else fold (\<lambda>x m. if flt x m then x else m) (tl w) (hd w))"

definition window_max :: "fval list \<Rightarrow> fval" where
  "window_max w =
     (if w = [] \<or> list_ex (\<lambda>x. isna x \<or> isinf x) w then NaN
      else fold (\<lambda>x m. if fgt x m then x else m) (tl w) (hd w))"

definition rolling :: "(fval list \<Rightarrow> fval) \<Rightarrow> nat \<Rightarrow> fval list \<Rightarrow> fval list" where
  "rolling agg k xs =
     map (\<lambda>i. if i + 1 < k then NaN else agg (take k (drop (i + 1 - k) xs))) [0..<length xs]"

text \<open>
  The raw stochastic value, row by row:
  \<open>rsv = (close - lowest_low) / (highest_high - lowest_low) * 100\<close>.
\<close>

definition rsv_series :: "fval list \<Rightarrow> fval list \<Rightarrow> fval list \<Rightarrow> nat \<Rightarrow> fval list" where
  "rsv_series highs lows closes k_period =
     (let lowest_low = rolling window_min k_period lows;
          highest_high = rolling window_max k_period highs
      in map (\<lambda>(c, ll, hh). fmul (fdiv (fsub c ll) (fsub hh ll)) (Fin 100))
             (zip closes (zip lowest_low highest_high)))"

text \<open>
  The two loops of \<open>calculate_kdj\<close>, over \<open>rsv\<close> for K and over the K series for D, have
  the same body: a NaN input gives a NaN output and leaves the carried value alone; any
  other input gives \<open>(2/3) * prev + (1/3) * input\<close>, which becomes the carried value.
  \<open>smooth_loop prev xs\<close> is that loop, started with the carried value \<open>prev\<close>.
\<close>

definition smooth :: "fval \<Rightarrow> fval \<Rightarrow> fval" where
  "smooth prev x = fadd (fmul (Fin (2/3)) prev) (fmul (Fin (1/3)) x)"

fun smooth_loop :: "fval \<Rightarrow> fval list \<Rightarrow> fval list" where
  "smooth_loop prev [] = []"
| "smooth_loop prev (x # xs) =
     (if isna x then NaN # smooth_loop prev xs
      else let current = smooth prev x in current # smooth_loop current xs)"





section \<open>Data sources: configuration, registry and primary source\<close>

text \<open>
  The configuration is a dictionary from source names to dictionaries with the optional
  keys \<open>enabled\<close> and \<open>priority\<close> (read with \<open>.get('enabled', True)\<close> and
  \<open>.get('priority', 99)\<close>); the other keys play no part in ordering or selection.
  Dictionaries keep insertion order, which the stable sort by priority observes, so they
  are association lists; \<open>AList.update\<close> replaces the value of a key in place and appends
  a new key at the end, as assignment to a dictionary does.
\<close>

record source_config =
  enabled :: "bool option"
  priority :: "int option"

type_synonym config = "(string \<times> source_config) list"

definition default_config :: config where
  "default_config =
     [(''akshare'', \<lparr> enabled = Some True, priority = Some 3 \<rparr>),
      (''tushare'', \<lparr> enabled = Some True, priority = Some 2 \<rparr>),
      (''eastmoney'', \<lparr> enabled = Some True, priority = Some 1 \<rparr>),
      (''sina'', \<lparr> enabled = Some True, priority = Some 4 \<rparr>),
      (''qqstock'', \<lparr> enabled = Some True, priority = Some 5 \<rparr>),
      (''wangyi'', \<lparr> enabled = Some True, priority = Some 6 \<rparr>)]"

text \<open>\<open>default_config[name].update(source_config)\<close>: the keys given override.\<close>

definition config_update :: "source_config \<Rightarrow> source_config \<Rightarrow> source_config" where
  "config_update d c =
     \<lparr> enabled = (case enabled c of None \<Rightarrow> enabled d | Some b \<Rightarrow> Some b),
       priority = (case priority c of None \<Rightarrow> priority d | Some q \<Rightarrow> Some q) \<rparr>"

definition merge_config :: "config \<Rightarrow> config" where
  "merge_config config =
     fold (\<lambda>(source_name, source_config) dc.
             case map_of dc source_name of
               Some d \<Rightarrow> AList.update source_name (config_update d source_config) dc
             | None \<Rightarrow> AList.update source_name source_config dc)
          config default_config"

definition get_priority :: "source_config \<Rightarrow> int" where
  "get_priority c = (case priority c of None \<Rightarrow> 99 | Some q \<Rightarrow> q)"

definition get_enabled :: "source_config \<Rightarrow> bool" where
  "get_enabled c = (case enabled c of None \<Rightarrow> True | Some b \<Rightarrow> b)"

text \<open>
  The sort key of the source named \<open>source_name\<close>: \<open>x[1].get('priority', 99)\<close> for its
  item in the merged configuration.
\<close>

definition configured_priority :: "config \<Rightarrow> string \<Rightarrow> int" where
  "configured_priority config source_name =
     (case map_of (merge_config config) source_name of
        Some c \<Rightarrow> get_priority c
      | None \<Rightarrow> 99)"

text \<open>
  What the network and the adapter classes do is not part of the registry; it is a
  parameter of the model.  For each source name: whether the adapter's constructor
  succeeds, whether \<open>connect()\<close> succeeds (it then returns \<open>True\<close> and sets
  \<open>is_connected\<close>; otherwise it returns \<open>False\<close> or raises, and \<open>is_connected\<close> is
  \<open>False\<close>), and what \<open>get_price_data\<close> does for a window of a given number of days: it
  raises, or returns a frame (a list of rows).
\<close>

datatype 'r fetch_result = Raises | Returns "'r list"

record 'r adapter =
  constructs :: bool
  connects :: bool
  history :: "int \<Rightarrow> 'r fetch_result"

record data_source =
  name :: string
  is_connected :: bool

record manager =
  sources :: "(string \<times> data_source) list"
  primary_source :: "string option"

datatype py_error = ValueError

definition add_source :: "manager \<Rightarrow> data_source \<Rightarrow> manager" where
  "add_source m source =
     m \<lparr> sources := AList.update (name source) source (sources m),
         primary_source :=
           (case primary_source m of None \<Rightarrow> Some (name source) | Some p \<Rightarrow> Some p) \<rparr>"

definition set_primary_source :: "manager \<Rightarrow> string \<Rightarrow> py_error + manager" where
  "set_primary_source m source_name =
     (if source_name \<in> set (map fst (sources m))
      then Inr (m \<lparr> primary_source := Some source_name \<rparr>)
      else Inl ValueError)"

definition get_source_by_name :: "manager \<Rightarrow> string \<Rightarrow> data_source option" where
  "get_source_by_name m source_name = map_of (sources m) source_name"

definition get_available_sources :: "manager \<Rightarrow> string list" where
  "get_available_sources m = map fst (filter (\<lambda>(n, source). is_connected source) (sources m))"

text \<open>
  \<open>connect_all\<close>: every source is probed in the order of the dictionary; the result maps
  each name to the outcome, and an exception counts as \<open>False\<close>.
\<close>

definition connect_all ::
  "(string \<Rightarrow> 'r adapter) \<Rightarrow> manager \<Rightarrow> manager \<times> (string \<times> bool) list" where
  "connect_all net m =
     (m \<lparr> sources := map (\<lambda>(n, source). (n, source \<lparr> is_connected := connects (net n) \<rparr>))
                         (sources m) \<rparr>,
      map (\<lambda>(n, source). (n, connects (net n))) (sources m))"

text \<open>The names for which \<open>create_data_source_manager\<close> has an adapter class.\<close>

definition known_sources :: "string list" where
  "known_sources = [''akshare'', ''tushare'', ''eastmoney'', ''sina'', ''qqstock'', ''wangyi'']"

definition create_data_source_manager ::
  "(string \<Rightarrow> 'r adapter) \<Rightarrow> config \<Rightarrow> manager" where
  "create_data_source_manager net config =
     (let sorted_sources = sort_key (\<lambda>(n, c). get_priority c) (merge_config config)
      in fold (\<lambda>(source_name, source_config) manager.
                 if \<not> get_enabled source_config then manager
                 else if source_name \<in> set known_sources \<and> constructs (net source_name)
                   then add_source manager \<lparr> name = source_name, is_connected = False \<rparr>
                 else manager)
              sorted_sources \<lparr> sources = [], primary_source = None \<rparr>)"

text \<open>
  \<open>get_data_source_manager\<close>, on the branch that builds the global manager (it is built
  once).  The configuration is the argument, or \<open>DATA_SOURCES\<close> of \<open>config.py\<close>.
\<close>

definition priority_order :: "string list" where
  "priority_order = [''eastmoney'', ''tushare'', ''akshare'', ''sina'', ''qqstock'', ''wangyi'']"

definition get_data_source_manager ::
  "(string \<Rightarrow> 'r adapter) \<Rightarrow> config \<Rightarrow> py_error + manager" where
  "get_data_source_manager net config =
     (let (manager, connection_results) = connect_all net (create_data_source_manager net config);
          connected_sources = map fst (filter snd connection_results);
          available_sources = get_available_sources manager
      in if available_sources \<noteq> [] then
           (case find (\<lambda>source_name. source_name \<in> set connected_sources) priority_order of
              Some primary \<Rightarrow> set_primary_source manager primary
            | None \<Rightarrow> set_primary_source manager (hd available_sources))
         else Inr manager)"

section \<open>Analysis engine: fetching the history\<close>

text \<open>
  One pass of \<open>_get_stock_data\<close> over the available sources, for a window of \<open>days\<close>
  days.  The state is the frame \<open>df\<close> and the list of the calls of \<open>get_price_data\<close> made
  so far, each with the source's name and the window.  A non-empty frame ends the pass
  (\<open>break\<close>); an empty frame replaces \<open>df\<close> and an exception leaves it, and the pass goes on.
\<close>

fun fetch_pass ::
  "(string \<Rightarrow> 'r adapter) \<Rightarrow> manager \<Rightarrow> int \<Rightarrow> string list \<Rightarrow>
   'r list \<times> (string \<times> int) list \<Rightarrow> 'r list \<times> (string \<times> int) list" where
  "fetch_pass net m days [] (df, calls) = (df, calls)"
| "fetch_pass net m days (source_name # rest) (df, calls) =
     (case get_source_by_name m source_name of
        None \<Rightarrow> fetch_pass net m days rest (df, calls)
      | Some source \<Rightarrow>
          if is_connected source then
            (case history (net source_name) days of
               Raises \<Rightarrow> fetch_pass net m days rest (df, calls @ [(source_name, days)])
             | Returns rows \<Rightarrow>
                 if rows \<noteq> [] then (rows, calls @ [(source_name, days)])
                 else fetch_pass net m days rest (rows, calls @ [(source_name, days)]))
          else fetch_pass net m days rest (df, calls))"

text \<open>
  Dates.  A date is its proleptic Gregorian ordinal (\<open>date.toordinal()\<close>): 1 is
  0001-01-01 and 3652059 is 9999-12-31, the last date that \<open>datetime\<close> has.
  \<open>timedelta(days=n)\<close> raises OverflowError when the magnitude of \<open>n\<close> exceeds 999999999,
  and subtracting a \<open>timedelta\<close> from a \<open>datetime\<close> raises OverflowError when the result is
  not a date.  A whole number of days is subtracted, so the time of day plays no part.
\<close>

datatype date_error = OverflowError

definition timedelta :: "int \<Rightarrow> date_error + int" where
  "timedelta days = (if \<bar>days\<bar> \<le> 999999999 then Inr days else Inl OverflowError)"

definition datetime_minus :: "int \<Rightarrow> int \<Rightarrow> date_error + int" where
  "datetime_minus date delta =
     (if 0 < date - delta \<and> date - delta \<le> 3652059 then Inr (date - delta)
      else Inl OverflowError)"

text \<open>\<open>datetime.now() - timedelta(days=days)\<close>, with \<open>today\<close> for \<open>datetime.now()\<close>.\<close>

definition days_before :: "int \<Rightarrow> int \<Rightarrow> date_error + int" where
  "days_before today days =
     (case timedelta days of
        Inl e \<Rightarrow> Inl e
      | Inr delta \<Rightarrow> datetime_minus today delta)"

text \<open>
  \<open>_get_stock_data\<close>.  \<open>today\<close> is the current date (the clock is taken to stay on one
  day during the call) and \<open>db\<close> is the frame that the database returns for the window
  (empty when the database fails).  The two start dates are computed outside any \<open>try\<close>,
  so their OverflowError leaves the function; the start date itself only selects the
  window, which the model names by its number of days.  The result is the frame and the
  calls made to the sources.  Saving the frame to the database afterwards cannot fail the
  function and is left out.
\<close>

definition get_stock_data ::
  "(string \<Rightarrow> 'r adapter) \<Rightarrow> manager \<Rightarrow> int \<Rightarrow> 'r list \<Rightarrow> int \<Rightarrow> bool \<Rightarrow>
   date_error + 'r list \<times> (string \<times> int) list" where
  "get_stock_data net m today db days force_update =
     (case days_before today days of
        Inl e \<Rightarrow> Inl e
      | Inr start_date \<Rightarrow>
          if \<not> force_update \<and> db \<noteq> [] \<and> real (length db) \<ge> real_of_int days * 0.8
          then Inr (db, [])
          else
            let available_sources = get_available_sources m;
                (df, calls) = fetch_pass net m days available_sources ([], [])
            in if df = [] \<and> days > 30 then
                 (case days_before today 30 of
                    Inl e \<Rightarrow> Inl e
                  | Inr shorter_start \<Rightarrow>
                      Inr (fetch_pass net m 30 available_sources (df, calls)))
               else Inr (df, calls))"

text \<open>
  An example: priorities of \<open>sina\<close> and \<open>eastmoney\<close> exchanged in the configuration, and a
  network on which every source constructs and connects and has no data.
\<close>

definition swapped_config :: config where
  "swapped_config =
     [(''sina'', \<lparr> enabled = None, priority = Some 1 \<rparr>),
      (''eastmoney'', \<lparr> enabled = None, priority = Some 4 \<rparr>)]"

definition healthy_net :: "string \<Rightarrow> unit adapter" where
  "healthy_net n = \<lparr> constructs = True, connects = True, history = (\<lambda>d. Returns []) \<rparr>"

text \<open>The manager that \<open>get_data_source_manager\<close> builds from them.\<close>

definition healthy_manager :: manager where
  "healthy_manager =
     \<lparr> sources =
         [(''sina'', \<lparr> name = ''sina'', is_connected = True \<rparr>),
          (''tushare'', \<lparr> name = ''tushare'', is_connected = True \<rparr>),
          (''akshare'', \<lparr> name = ''akshare'', is_connected = True \<rparr>),
          (''eastmoney'', \<lparr> name = ''eastmoney'', is_connected = True \<rparr>),
          (''qqstock'', \<lparr> name = ''qqstock'', is_connected = True \<rparr>),
          (''wangyi'', \<lparr> name = ''wangyi'', is_connected = True \<rparr>)],
       primary_source = Some ''eastmoney'' \<rparr>"

text \<open>
  A second network: \<open>sina\<close> does not connect, \<open>tushare\<close> has no data, \<open>akshare\<close> has two
  rows, and every other source raises; and the manager built on it.
\<close>

definition failover_net :: "string \<Rightarrow> unit adapter" where
  "failover_net n =
     \<lparr> constructs = True, connects = (n \<noteq> ''sina''),
       history = (\<lambda>d. if n = ''tushare'' then Returns []
                      else if n = ''akshare'' then Returns [(), ()]
                      else Raises) \<rparr>"

definition failover_manager :: manager where
  "failover_manager =
     \<lparr> sources =
         [(''sina'', \<lparr> name = ''sina'', is_connected = False \<rparr>),
          (''tushare'', \<lparr> name = ''tushare'', is_connected = True \<rparr>),
          (''akshare'', \<lparr> name = ''akshare'', is_connected = True \<rparr>),
          (''eastmoney'', \<lparr> name = ''eastmoney'', is_connected = True \<rparr>),
          (''qqstock'', \<lparr> name = ''qqstock'', is_connected = True \<rparr>),
          (''wangyi'', \<lparr> name = ''wangyi'', is_connected = True \<rparr>)],
       primary_source = Some ''eastmoney'' \<rparr>"

section \<open>Properties\<close>

subsection \<open>Auxiliary facts about float operations\<close>

lemma py_min_Fin [simp]: "py_min (Fin a) (Fin b) = Fin (min a b)"
  by (auto simp: py_min_def)

lemma py_max_Fin [simp]: "py_max (Fin a) (Fin b) = Fin (max a b)"
  by (auto simp: py_max_def)

subsection \<open>Turtle strategy\<close>

text \<open>
  C7.  \<open>_combine_signals\<close> returns System 2's entry signal whenever System 2 has one;
  otherwise System 1's entry signal, provided System 1 has one and its confidence exceeds
  0.6; otherwise EXIT if either system has an exit signal; otherwise HOLD.
\<close>

theorem combine_signals_rule:
  "combine_signals s1 s2 =
     (if entry_signal s2 \<noteq> ''NONE'' then entry_signal s2
      else if entry_signal s1 \<noteq> ''NONE'' \<and> fgt (confidence s1) (Fin (6/10))
        then entry_signal s1
      else if exit_signal s1 \<noteq> ''NONE'' \<or> exit_signal s2 \<noteq> ''NONE'' then ''EXIT''
      else ''HOLD'')"
  by (simp add: combine_signals_def)

text \<open>
  An instance: System 2 has no entry signal, System 1 signals BUY with confidence 0.55
  only, and System 1 has an exit signal; the combined signal is EXIT.
\<close>

theorem combine_signals_rule_witness:
  "combine_signals
     \<lparr> entry_signal = ''BUY'', exit_signal = ''EXIT_SHORT'', entry_price = Some (Fin 10),
       exit_price = Some (Fin 10), breakout_high = Some (Fin 10), breakout_low = Some (Fin 8),
       exit_high = Some (Fin 10), exit_low = Some (Fin 9), confidence = Fin 0.55 \<rparr>
     \<lparr> entry_signal = ''NONE'', exit_signal = ''NONE'', entry_price = None,
       exit_price = None, breakout_high = Some (Fin 12), breakout_low = Some (Fin 7),
       exit_high = Some (Fin 10), exit_low = Some (Fin 8), confidence = Fin 0 \<rparr>
   = ''EXIT''"
  by (simp add: combine_signals_rule)

text \<open>
  \<open>_calculate_position_size\<close> never divides by zero, whatever the frame and the ATR
  value (NaN and the infinities included): the body of its \<open>try\<close> does not raise
  ZeroDivisionError, because the division by ATR is reached only when \<open>atr <= 0\<close> is
  false, and the other divisor is the capital 100000.
\<close>

lemma position_size_no_division_by_zero:
  "position_size_body params pd atr \<noteq> Inl ZeroDivisionError"
  by (cases atr)
     (auto simp: position_size_body_def py_div_def iloc_last_def params_def Let_def
           split: option.splits sum.splits)

text \<open>
  For every price frame and every ATR value that is a number (zero and negative numbers
  included), it returns a number in the interval (0, 0.05]: the default 0.05 when the
  frame is empty (the IndexError is caught), when ATR <= 0 or when the last close is
  <= 0, and otherwise \<open>min(0.02/ATR, 0.05)\<close>.
\<close>

lemma position_size_finite_atr:
  "calculate_position_size params pd (Fin a) =
     Fin (if bars pd = [] \<or> a \<le> 0 \<or> fle (close (last (bars pd))) (Fin 0)
          then 0.05 else min (0.02 / a) 0.05) \<and>
   0 < (if bars pd = [] \<or> a \<le> 0 \<or> fle (close (last (bars pd))) (Fin 0)
        then 0.05 else min (0.02 / a) 0.05) \<and>
   (if bars pd = [] \<or> a \<le> 0 \<or> fle (close (last (bars pd))) (Fin 0)
    then 0.05 else min (0.02 / a) 0.05) \<le> (0.05 :: real)"
  by (auto simp: calculate_position_size_def position_size_body_def py_div_def iloc_last_def
                 params_def Let_def last_map)

text \<open>
  C10.  The function never divides by zero (\<open>position_size_no_division_by_zero\<close>), and
  for an ATR that is a number the result is in (0, 0.05], with the values the claim
  gives (\<open>position_size_finite_atr\<close>).  The interval does not hold for every ATR value.
  No comparison with NaN is true, so an ATR that is NaN passes the guard \<open>atr <= 0\<close>, no
  exception is raised, \<open>min(NaN, 0.05)\<close> is NaN, and the result is NaN.  An infinite ATR
  passes the guard too: \<open>2000/inf\<close> is 0 and the result is 0.
\<close>

theorem position_size_nan_or_zero:
  "calculate_position_size params one_day_frame NaN = NaN \<and>
   calculate_position_size params one_day_frame PInf = Fin 0 \<and>
   \<not> fgt (calculate_position_size params one_day_frame NaN) (Fin 0) \<and>
   \<not> fgt (calculate_position_size params one_day_frame PInf) (Fin 0)"
  by (simp add: calculate_position_size_def position_size_body_def py_div_def iloc_last_def
                params_def one_day_frame_def py_min_def)

subsection \<open>Turtle strategy: breakout trigger and confidence\<close>

text \<open>
  The clamp \<open>max(min(x, 0.9), 0.1)\<close> at the end of \<open>_calculate_breakout_strength\<close>
  brings every number and both infinities into [0.1, 0.9], and lets NaN through.
\<close>

lemma clamp_range:
  "isna x \<and> isna (py_max (py_min x (Fin 0.9)) (Fin 0.1)) \<or>
   \<not> isna x \<and> fle (Fin 0.1) (py_max (py_min x (Fin 0.9)) (Fin 0.1)) \<and>
     fle (py_max (py_min x (Fin 0.9)) (Fin 0.1)) (Fin 0.9)"
  by (cases x) (auto simp: py_min_def py_max_def)

lemma calculate_breakout_strength_range:
  "isna (calculate_breakout_strength pd lv up) \<or>
   fle (Fin 0.1) (calculate_breakout_strength pd lv up) \<and>
   fle (calculate_breakout_strength pd lv up) (Fin 0.9)"
proof (cases "iloc_last (map close (bars pd))")
  case None
  then show ?thesis by (simp add: calculate_breakout_strength_def)
next
  case (Some cp)
  then obtain x where "calculate_breakout_strength pd lv up = py_max (py_min x (Fin 0.9)) (Fin 0.1)"
    by (simp add: calculate_breakout_strength_def Let_def)
  then show ?thesis using clamp_range [of x] by auto
qed

lemma volume_ratio_finite:
  "\<exists>q. (if fgt A (Fin 0) then fdiv (Fin v) A else Fin 1) = Fin q"
  by (cases A) auto

lemma calculate_breakout_strength_finite:
  assumes ne: "bars pd \<noteq> []"
    and c: "close (last (bars pd)) = Fin c"
    and l: "l \<noteq> 0"
    and v: "has_volume pd \<longrightarrow> volume (last (bars pd)) = Fin v"
  shows "\<exists>r. calculate_breakout_strength pd (Fin l) up = Fin r \<and> 0.1 \<le> r \<and> r \<le> 0.9"
proof -
  have cp: "iloc_last (map close (bars pd)) = Some (Fin c)"
    using ne c by (simp add: iloc_last_def last_map)
  obtain v' where cv: "(if has_volume pd then last (map volume (bars pd)) else Fin 0) = Fin v'"
    using ne v by (cases "has_volume pd") (auto simp: last_map)
  obtain b where bp: "(if up then fdiv (fsub (Fin c) (Fin l)) (Fin l)
                       else fdiv (fsub (Fin l) (Fin c)) (Fin l)) = Fin b"
    using l by (cases up) (auto simp: fsub_def)
  obtain q where vr: "(if fgt (if has_volume pd then pd_mean (tail 20 (map volume (bars pd))) else Fin 1) (Fin 0)
                       then fdiv (Fin v') (if has_volume pd then pd_mean (tail 20 (map volume (bars pd))) else Fin 1)
                       else Fin 1) = Fin q"
    using volume_ratio_finite by blast
  have "calculate_breakout_strength pd (Fin l) up =
          Fin (max (min (min (b * 10) 0.5 + min ((q - 1) * 0.1) 0.3 + 0.3) 0.9) 0.1)"
    unfolding calculate_breakout_strength_def cp option.case Let_def cv bp vr
    by (simp add: fsub_def)
  moreover have "(0.1::real) \<le> max (min z 0.9) 0.1 \<and> max (min z 0.9) 0.1 \<le> 0.9" for z :: real
    by (simp add: max_def min_def)
  ultimately show ?thesis by blast
qed

lemma iloc_window_eq:
  "p + 1 \<le> length xs \<Longrightarrow> iloc_window p xs = take p (drop (length xs - (p + 1)) xs)"
  by (simp add: iloc_window_def Let_def)

lemma fold_max_Fin:
  "fold (\<lambda>x m. if fgt x m then x else m) (map Fin ys) (Fin y) = Fin (Max (insert y (set ys)))"
proof (induction ys arbitrary: y)
  case Nil
  then show ?case by simp
next
  case (Cons a ys)
  have "Max (insert (max y a) (set ys)) = Max (insert y (insert a (set ys)))"
    by (cases "set ys = {}") (simp_all add: max.assoc)
  then show ?case using Cons.IH [of "max y a"] by (auto simp: max_def)
qed

lemma pd_max_Fin: "xs \<noteq> [] \<Longrightarrow> pd_max (map Fin xs) = Fin (Max (set xs))"
  by (cases xs) (simp_all add: pd_max_def filter_map comp_def fold_max_Fin)

lemma analyze_system_buy:
  assumes len: "entry_period + 1 \<le> length (bars pd)"
    and ep: "entry_period = (if system_num = 1 then system1_entry_period p else system2_entry_period p)"
    and brk: "fgt (high (last (bars pd))) (pd_max (iloc_window entry_period (map high (bars pd))))"
  shows "entry_signal (analyze_system p system_num pd) = ''BUY'' \<and>
         breakout_high (analyze_system p system_num pd) =
           Some (pd_max (iloc_window entry_period (map high (bars pd)))) \<and>
         confidence (analyze_system p system_num pd) =
           calculate_breakout_strength pd
             (pd_max (iloc_window entry_period (map high (bars pd)))) True"
proof -
  have ne: "bars pd \<noteq> []" using len by auto
  have nl: "\<not> length (bars pd) < entry_period + 1" using len by simp
  show ?thesis
  proof (cases "system_num = 1")
    case True
    with ep have e: "system1_entry_period p = entry_period" by simp
    show ?thesis using nl brk ne True
      by (simp add: analyze_system_def Let_def last_map e)
  next
    case False
    with ep have e: "system2_entry_period p = entry_period" by simp
    show ?thesis using nl brk ne False
      by (simp add: analyze_system_def Let_def last_map e)
  qed
qed

lemma funpow_keep_max: "((\<lambda>m. if fgt (Fin a) m then Fin a else m) ^^ k) (Fin a) = Fin a"
  by (induction k) auto

lemma funpow_keep_min: "((\<lambda>m. if flt (Fin a) m then Fin a else m) ^^ k) (Fin a) = Fin a"
  by (induction k) auto

lemma pd_max_replicate: "0 < n \<Longrightarrow> pd_max (replicate n (Fin a)) = Fin a"
  by (cases n) (simp_all add: pd_max_def funpow_keep_max)

lemma pd_min_replicate: "0 < n \<Longrightarrow> pd_min (replicate n (Fin a)) = Fin a"
  by (cases n) (simp_all add: pd_min_def funpow_keep_min)

lemma iloc_window_replicate:
  "p \<le> n \<Longrightarrow> iloc_window p (replicate n a @ [x]) = replicate p a"
  by (simp add: iloc_window_def Let_def min_def)

lemma funpow_fadd: "((\<lambda>acc. fadd acc (Fin a)) ^^ k) (Fin s) = Fin (s + real k * a)"
  by (induction k arbitrary: s) (auto simp: algebra_simps)

lemma mean_arith: "(a + real n * a) / (1 + real n) = a"
proof -
  have "a + real n * a = a * (1 + real n)" by (simp add: algebra_simps)
  moreover have "1 + real n \<noteq> 0" by (metis add_nonneg_pos of_nat_0_le_iff zero_less_one add.commute less_numeral_extra(3))
  ultimately show ?thesis by simp
qed

lemma pd_mean_replicate_nan:
  "0 < k \<Longrightarrow> pd_mean (replicate k (Fin a) @ [NaN]) = Fin a"
  by (cases k) (simp_all add: pd_mean_def funpow_fadd mean_arith)

lemma tail_replicate_snoc:
  "0 < m \<Longrightarrow> m \<le> Suc n \<Longrightarrow> tail m (replicate n a @ [x]) = replicate (m - 1) a @ [x]"
  by (cases m) (simp_all add: tail_def)

lemma frame_columns:
  "map high (bars (breakout_frame v)) = replicate 20 (Fin 10) @ [Fin 11]"
  "map close (bars (breakout_frame v)) = replicate 20 (Fin 9.5) @ [Fin 10.5]"
  "map volume (bars (breakout_frame v)) = replicate 20 (Fin 1000) @ [v]"
  "has_volume (breakout_frame v)"
  "length (bars (breakout_frame v)) = 21"
  "high (last (bars (breakout_frame v))) = Fin 11"
  by (simp_all add: breakout_frame_def)

lemma frame_entry_high:
  "pd_max (iloc_window 20 (map high (bars (breakout_frame v)))) = Fin 10"
  by (simp add: frame_columns iloc_window_replicate pd_max_replicate)

lemma strength_nan:
  "calculate_breakout_strength (breakout_frame NaN) (Fin 10) True = NaN"
proof -
  have avg: "pd_mean (tail 20 (map volume (bars (breakout_frame NaN)))) = Fin 1000"
    by (simp add: frame_columns tail_replicate_snoc pd_mean_replicate_nan)
  show ?thesis
    unfolding calculate_breakout_strength_def Let_def avg
    by (simp add: frame_columns iloc_last_def fsub_def py_min_def py_max_def)
qed

text \<open>
  C6.  The breakout trigger holds: \<open>analyze_system_buy\<close> above shows that a last high
  strictly above the maximum high of the \<open>entry_period\<close> preceding days gives the entry
  signal BUY with \<open>breakout_high\<close> equal to that maximum, and \<open>pd_max_Fin\<close> that this
  maximum is the mathematical one.  The confidence is in [0.1, 0.9] whenever the last
  close and the last volume are numbers and the breakout level is not zero
  (\<open>calculate_breakout_strength_finite\<close>).  It is not for every input: on the 21-day
  frame whose last day has no volume (NaN), System 1 signals BUY at the 20-day high 10,
  and the confidence it reports is NaN.
\<close>

theorem breakout_confidence_nan_on_missing_volume:
  "entry_signal (analyze_system params 1 (breakout_frame NaN)) = ''BUY'' \<and>
   breakout_high (analyze_system params 1 (breakout_frame NaN)) = Some (Fin 10) \<and>
   confidence (analyze_system params 1 (breakout_frame NaN)) = NaN \<and>
   \<not> fle (Fin 0.1) (confidence (analyze_system params 1 (breakout_frame NaN))) \<and>
   \<not> fle (confidence (analyze_system params 1 (breakout_frame NaN))) (Fin 0.9)"
proof -
  have len: "20 + 1 \<le> length (bars (breakout_frame NaN))"
    by (simp add: frame_columns)
  have ep: "(20::nat) = (if (1::int) = 1 then system1_entry_period params
                         else system2_entry_period params)"
    by (simp add: params_def)
  have brk: "fgt (high (last (bars (breakout_frame NaN))))
                 (pd_max (iloc_window 20 (map high (bars (breakout_frame NaN)))))"
    unfolding frame_entry_high by (simp add: frame_columns)
  from analyze_system_buy [OF len ep brk] show ?thesis
    by (simp add: frame_entry_high strength_nan)
qed

text \<open>
  The same happens without any missing value, when the breakout level and the last close
  are both zero: the breakout percentage is \<open>0/0\<close>.
\<close>

lemma breakout_confidence_nan_on_zero_level:
  "calculate_breakout_strength zero_frame (Fin 0) True = NaN"
proof -
  have "iloc_last (map close (bars zero_frame)) = Some (Fin 0)"
    by (simp add: zero_frame_def iloc_last_def)
  then show ?thesis
    by (simp add: calculate_breakout_strength_def Let_def fsub_def inf_of_sign_def
        py_min_def py_max_def)
qed

subsection \<open>Double precision\<close>

text \<open>
  Rounding to double precision, for a positive number below \<open>2^1023\<close> whose binade is
  known: the number is divided by the spacing \<open>2^(e-52)\<close> of the doubles of its binade,
  rounded to an integer, ties to even, and scaled back.
\<close>

lemma pow2_add: "(2::real) powi (a + b) = 2 powi a * 2 powi b"
  by (rule power_int_add) simp

lemma pow2_nat: "0 \<le> a \<Longrightarrow> (2::real) powi a = of_int (2 ^ nat a)"
  by (simp add: power_int_def)

lemma binade_eq:
  assumes "2 powi e \<le> \<bar>x\<bar>" and "\<bar>x\<bar> < 2 powi (e + 1)" and "- 1022 \<le> e"
  shows "binade x = e"
proof -
  define P :: real where "P = 2 ^ 1074"
  define n where "n = \<lfloor>\<bar>x\<bar> * P\<rfloor>"
  have bd: "binade x = max (bitlen n - 1075) (- 1022)"
    unfolding binade_def n_def P_def ..
  have p: "P = 2 powi 1074"
    unfolding P_def by (rule power_int_numeral [symmetric])
  have P0: "0 < P"
    unfolding p by (rule zero_less_power_int) simp
  have e0: "0 \<le> e + 1074" and e1: "0 \<le> e + 1 + 1074" using assms(3) by simp_all
  have "2 powi e * P \<le> \<bar>x\<bar> * P"
    using assms(1) P0 by (simp only: mult_le_cancel_right_pos)
  then have "real_of_int (2 ^ nat (e + 1074)) \<le> \<bar>x\<bar> * P"
    unfolding p pow2_add [symmetric] pow2_nat [OF e0] .
  then have lo: "2 ^ nat (e + 1074) \<le> n"
    unfolding n_def by (simp only: le_floor_iff)
  have "\<bar>x\<bar> * P < 2 powi (e + 1) * P"
    using assms(2) P0 by (simp only: mult_less_cancel_right_pos)
  then have "\<bar>x\<bar> * P < real_of_int (2 ^ nat (e + 1 + 1074))"
    unfolding p pow2_add [symmetric] pow2_nat [OF e1] .
  then have hi: "n < 2 ^ nat (e + 1 + 1074)"
    unfolding n_def by (simp only: floor_less_iff)
  have "bitlen n \<le> e + 1 + 1074"
    using hi e1 by (simp only: bitlen_le_iff_power simp_thms)
  moreover have "nat (e + 1 + 1074) - 1 = nat (e + 1074)"
    using e0 by simp
  then have "e + 1 + 1074 \<le> bitlen n"
    using lo by (simp only: bitlen_ge_iff_power simp_thms)
  ultimately have "bitlen n = e + 1075"
    by simp
  then show ?thesis
    using assms(3) by (simp add: bd)
qed

lemma round_half_even_bounds:
  "of_int (round_half_even y) \<le> y + 1/2" "y - 1/2 \<le> of_int (round_half_even y)"
  unfolding round_half_even_def Let_def by (auto; linarith)+

lemma round_half_even_mono_int:
  "y \<le> of_int k \<Longrightarrow> round_half_even y \<le> k"
  unfolding round_half_even_def Let_def
  by (auto simp: floor_le_iff; linarith)

lemma b64_pos:
  assumes "2 powi e \<le> x" and "x < 2 powi (e + 1)" and "- 1022 \<le> e" and "e \<le> 1022"
  shows "b64 x = Fin (of_int (round_half_even (x / 2 powi (e - 52))) * 2 powi (e - 52))"
proof -
  have "(0::real) < 2 powi e"
    by (rule zero_less_power_int) simp
  then have x0: "0 < x" using assms(1) by (rule less_le_trans)
  then have ax: "\<bar>x\<bar> = x" by simp
  have be: "binade x = e"
    by (rule binade_eq) (simp_all only: ax assms)
  define u :: real where "u = 2 powi (e - 52)"
  have u0: "0 < u"
    unfolding u_def by (rule zero_less_power_int) simp
  have up: "2 powi 53 * u = 2 powi (e + 1)"
    unfolding u_def pow2_add [symmetric] by (rule arg_cong [where f = "\<lambda>k. 2 powi k"]) simp
  have p53: "(2::real) powi 53 = real_of_int (2 ^ 53)"
    by simp
  have "x < 2 powi 53 * u"
    using assms(2) by (simp only: up)
  then have "x / u < 2 powi 53"
    using u0 by (simp only: pos_divide_less_eq)
  then have "x / u \<le> of_int (2 ^ 53)"
    unfolding p53 by (rule less_imp_le)
  then have "round_half_even (x / u) \<le> 2 ^ 53"
    by (rule round_half_even_mono_int)
  then have "real_of_int (round_half_even (x / u)) \<le> of_int (2 ^ 53)"
    by (simp only: of_int_le_iff)
  then have "of_int (round_half_even (x / u)) * u \<le> of_int (2 ^ 53) * u"
    using u0 by (simp only: mult_le_cancel_right_pos)
  also have "of_int (2 ^ 53) * u = 2 powi (e + 1)"
    using up unfolding p53 .
  also have "\<dots> \<le> 2 powi 1023"
    by (rule power_int_increasing) (use assms(4) in simp_all)
  also have "\<dots> < 2 powi 1024"
    by (rule power_int_strict_increasing) simp_all
  finally have small: "\<not> 2 powi 1024 \<le> of_int (round_half_even (x / u)) * u"
    by (simp only: not_le)
  have nx: "\<not> x < 0" using x0 by simp
  have q: "(2::real) ^ 1024 = 2 powi 1024"
    by (rule power_int_numeral [symmetric])
  show ?thesis
    unfolding b64_def be Let_def ax q u_def [symmetric] if_not_P [OF small]
      if_not_P [OF nx] ..
qed


text \<open>The result is a double of that binade, at most half a spacing away.\<close>

lemma b64_nearest:
  assumes "2 powi e \<le> x" and "x < 2 powi (e + 1)" and "- 1022 \<le> e" and "e \<le> 1022"
  shows "\<exists>m. b64 x = Fin (of_int m * 2 powi (e - 52)) \<and>
             \<bar>of_int m * 2 powi (e - 52) - x\<bar> \<le> 2 powi (e - 53)"
proof -
  define u :: real where "u = 2 powi (e - 52)"
  define m where "m = round_half_even (x / u)"
  have u0: "0 < u"
    unfolding u_def by (rule zero_less_power_int) simp
  have "u = 2 powi ((e - 53) + 1)"
    unfolding u_def by (rule arg_cong [where f = "\<lambda>k. 2 powi k"]) simp
  then have "u = 2 powi (e - 53) * 2"
    unfolding pow2_add by simp
  then have h: "2 powi (e - 53) = u / 2"
    by simp
  have eq: "(of_int m - x / u) * u = of_int m * u - x"
    using u0 by (simp add: left_diff_distrib)
  have au: "\<bar>u\<bar> = u" using u0 by simp
  have "\<bar>of_int m * u - x\<bar> = \<bar>(of_int m - x / u) * u\<bar>"
    by (simp only: eq)
  also have "\<dots> = \<bar>of_int m - x / u\<bar> * u"
    by (simp only: abs_mult au)
  finally have ab: "\<bar>of_int m * u - x\<bar> = \<bar>of_int m - x / u\<bar> * u" .
  have "\<bar>of_int m - x / u\<bar> \<le> 1/2"
    using round_half_even_bounds [of "x / u"] unfolding m_def by linarith
  then have "\<bar>of_int m - x / u\<bar> * u \<le> 1/2 * u"
    using u0 by (simp only: mult_le_cancel_right_pos)
  then have "\<bar>of_int m * u - x\<bar> \<le> 2 powi (e - 53)"
    unfolding h ab by simp
  moreover have "b64 x = Fin (of_int m * u)"
    unfolding m_def u_def by (rule b64_pos [OF assms])
  ultimately show ?thesis
    unfolding u_def by blast
qed

text \<open>The decimal literals of the combiner, and zero.\<close>

lemma b64_0: "b64 0 = Fin 0"
  by (simp add: b64_def binade_def round_half_even_def)

lemma b64_5_10: "b64 (5/10) = Fin (1/2)"
  by (subst b64_pos [where e = "- 1"]) (simp_all add: round_half_even_def Let_def)

lemma b64_6_10: "b64 (6/10) = Fin (5404319552844595 / 2 ^ 53)"
  by (subst b64_pos [where e = "- 1"]) (simp_all add: round_half_even_def Let_def)

lemma b64_3_10: "b64 (3/10) = Fin (5404319552844595 / 2 ^ 54)"
  by (subst b64_pos [where e = "- 2"]) (simp_all add: round_half_even_def Let_def)

lemma b64_9_10: "b64 (9/10) = Fin (8106479329266893 / 2 ^ 53)"
  by (subst b64_pos [where e = "- 1"]) (simp_all add: round_half_even_def Let_def)

lemma b64_2_10: "b64 (2/10) = Fin (3602879701896397 / 2 ^ 54)"
  by (subst b64_pos [where e = "- 3"]) (simp_all add: round_half_even_def Let_def)

lemma b64_36_100: "b64 (36/100) = Fin (3242591731706757 / 2 ^ 53)"
  by (subst b64_pos [where e = "- 2"]) (simp_all add: round_half_even_def Let_def)

subsection \<open>Retail strategy\<close>

text \<open>The arithmetic of the two examples of the specification, step by step.\<close>

lemma weight_complement:
  "dsub (Fin 1) (Fin (5404319552844595 / 2 ^ 53)) = Fin (3602879701896397 / 2 ^ 53)"
  unfolding dsub_def fsub_def by (simp add: round64_def, subst b64_pos [where e = "- 2"])
    (simp_all add: round_half_even_def Let_def)

lemma dmul_zero: "dmul (Fin 0) (Fin a) = Fin 0"
  by (simp add: dmul_def round64_def b64_0)

lemma b64_1_2: "b64 (1/2) = Fin (1/2)"
  by (subst b64_pos [where e = "- 1"]) (simp_all add: round_half_even_def Let_def)

lemma b64_3_4: "b64 (3/4) = Fin (3/4)"
  by (subst b64_pos [where e = "- 1"]) (simp_all add: round_half_even_def Let_def)

lemma py_sum_half: "py_sum [Fin (1/2), Fin 0, Fin 0] = Fin (1/2)"
  by (simp add: py_sum_def dadd_def round64_def b64_1_2)

lemma py_sum_three_quarters: "py_sum [Fin (3/4), Fin 0, Fin 0] = Fin (3/4)"
  by (simp add: py_sum_def dadd_def round64_def b64_3_4)

lemma py_sum_zero: "py_sum [Fin 0, Fin 0, Fin 0] = Fin 0"
  by (simp add: py_sum_def dadd_def round64_def b64_0)

text \<open>
  C8.  Let \<open>t\<close> be the traditional score (the sum of the three traditional signals, 0 when
  there are none), \<open>u\<close> the turtle score (the confidence for BUY, its negation for SELL,
  -0.8 for EXIT, 0 otherwise) and \<open>w\<close> the turtle weight, all of them doubles.  The total
  score of \<open>_make_combined_decision\<close> is \<open>t*(1-w) + u*w\<close> evaluated in double precision:
  the difference, the two products and the sum are each rounded to the nearest double.
  The action is BUY when this score is strictly greater than the double 0.3, SELL when it
  is strictly less than the double -0.3, and HOLD otherwise; the confidence is
  \<open>min(0.9, 0.5 + |score|)\<close>, in doubles, for BUY and SELL and 0.5 for HOLD.  With the
  double 0.6 for \<open>w\<close>: \<open>t = 0.5\<close>, \<open>u = 0\<close> gives the double 0.2 as score and HOLD, and
  \<open>t = 0\<close>, \<open>u = 0.6\<close> gives the double 0.36 as score and BUY.  The doubles named are
  \<open>0.3 = 5404319552844595 / 2^54\<close>, \<open>0.6 = 5404319552844595 / 2^53\<close>,
  \<open>0.2 = 3602879701896397 / 2^54\<close> and \<open>0.36 = 3242591731706757 / 2^53\<close>.
\<close>

theorem make_combined_decision_rule:
  "(let d = make_combined_decision p trad turtle;
        t = traditional_score d; u = turtle_score d; w = turtle_weight p;
        score = total_score d
    in t = (case trad of None \<Rightarrow> Fin 0
            | Some s \<Rightarrow> py_sum [trend s, technical s, volume_signal s]) \<and>
       u = (case turtle of None \<Rightarrow> Fin 0
            | Some ts \<Rightarrow>
                if recommendation ts = ''BUY'' then turtle_confidence ts
                else if recommendation ts = ''SELL'' then fneg (turtle_confidence ts)
                else if recommendation ts = ''EXIT'' then fneg (b64 (8/10))
                else Fin 0) \<and>
       score = dadd (dmul t (dsub (Fin 1) w)) (dmul u w) \<and>
       action d = (if fgt score (b64 (3/10)) then ''BUY''
                   else if flt score (fneg (b64 (3/10))) then ''SELL'' else ''HOLD'') \<and>
       decision_confidence d =
         (if fgt score (b64 (3/10)) \<or> flt score (fneg (b64 (3/10)))
          then py_min (b64 (9/10)) (dadd (b64 (5/10)) (fabs score)) else b64 (5/10))) \<and>
   (\<forall>a b. dsub (Fin a) (Fin b) = b64 (a - b) \<and> dmul (Fin a) (Fin b) = b64 (a * b) \<and>
          dadd (Fin a) (Fin b) = b64 (a + b)) \<and>
   b64 (3/10) = Fin (5404319552844595 / 2 ^ 54) \<and>
   b64 (6/10) = Fin (5404319552844595 / 2 ^ 53) \<and>
   b64 (2/10) = Fin (3602879701896397 / 2 ^ 54) \<and>
   b64 (36/100) = Fin (3242591731706757 / 2 ^ 53) \<and>
   (let d = make_combined_decision \<lparr> turtle_weight = b64 (6/10) \<rparr>
              (Some \<lparr> trend = Fin (1/2), technical = Fin 0, volume_signal = Fin 0 \<rparr>) None
    in traditional_score d = Fin (1/2) \<and> turtle_score d = Fin 0 \<and>
       total_score d = Fin (3602879701896397 / 2 ^ 54) \<and> action d = ''HOLD'' \<and>
       decision_confidence d = Fin (1/2)) \<and>
   (let d = make_combined_decision \<lparr> turtle_weight = b64 (6/10) \<rparr>
              (Some \<lparr> trend = Fin 0, technical = Fin 0, volume_signal = Fin 0 \<rparr>)
              (Some \<lparr> recommendation = ''BUY'', turtle_confidence = b64 (6/10) \<rparr>)
    in traditional_score d = Fin 0 \<and> turtle_score d = Fin (5404319552844595 / 2 ^ 53) \<and>
       total_score d = Fin (3242591731706757 / 2 ^ 53) \<and> action d = ''BUY'' \<and>
       decision_confidence d = Fin (7746191359077253 / 2 ^ 53))"
proof -
  have general: "(let d = make_combined_decision p trad turtle;
        t = traditional_score d; u = turtle_score d; w = turtle_weight p;
        score = total_score d
    in t = (case trad of None \<Rightarrow> Fin 0
            | Some s \<Rightarrow> py_sum [trend s, technical s, volume_signal s]) \<and>
       u = (case turtle of None \<Rightarrow> Fin 0
            | Some ts \<Rightarrow>
                if recommendation ts = ''BUY'' then turtle_confidence ts
                else if recommendation ts = ''SELL'' then fneg (turtle_confidence ts)
                else if recommendation ts = ''EXIT'' then fneg (b64 (8/10))
                else Fin 0) \<and>
       score = dadd (dmul t (dsub (Fin 1) w)) (dmul u w) \<and>
       action d = (if fgt score (b64 (3/10)) then ''BUY''
                   else if flt score (fneg (b64 (3/10))) then ''SELL'' else ''HOLD'') \<and>
       decision_confidence d =
         (if fgt score (b64 (3/10)) \<or> flt score (fneg (b64 (3/10)))
          then py_min (b64 (9/10)) (dadd (b64 (5/10)) (fabs score)) else b64 (5/10)))"
    by (auto simp: make_combined_decision_def Let_def split: option.splits)
  have hold: "make_combined_decision \<lparr> turtle_weight = b64 (6/10) \<rparr>
              (Some \<lparr> trend = Fin (1/2), technical = Fin 0, volume_signal = Fin 0 \<rparr>) None
      = \<lparr> action = ''HOLD'', decision_confidence = Fin (1/2), traditional_score = Fin (1/2),
          turtle_score = Fin 0, total_score = Fin (3602879701896397 / 2 ^ 54) \<rparr>"
  proof -
    have m: "dmul (Fin (1/2)) (Fin (3602879701896397 / 2 ^ 53)) = Fin (3602879701896397 / 2 ^ 54)"
      unfolding dmul_def by (simp add: round64_def, subst b64_pos [where e = "- 3"])
        (simp_all add: round_half_even_def Let_def)
    have a: "dadd (Fin (3602879701896397 / 2 ^ 54)) (Fin 0) = Fin (3602879701896397 / 2 ^ 54)"
      unfolding dadd_def by (simp add: round64_def, subst b64_pos [where e = "- 3"])
        (simp_all add: round_half_even_def Let_def)
    show ?thesis
      unfolding make_combined_decision_def Let_def b64_6_10 b64_3_10 b64_5_10
      by (simp only: option.case retail_params.simps traditional_signals.simps py_sum_half
            weight_complement m dmul_zero a flt.simps fneg.simps)
         simp
  qed
  have buy: "make_combined_decision \<lparr> turtle_weight = b64 (6/10) \<rparr>
              (Some \<lparr> trend = Fin 0, technical = Fin 0, volume_signal = Fin 0 \<rparr>)
              (Some \<lparr> recommendation = ''BUY'', turtle_confidence = b64 (6/10) \<rparr>)
      = \<lparr> action = ''BUY'', decision_confidence = Fin (7746191359077253 / 2 ^ 53),
          traditional_score = Fin 0, turtle_score = Fin (5404319552844595 / 2 ^ 53),
          total_score = Fin (3242591731706757 / 2 ^ 53) \<rparr>"
  proof -
    have m: "dmul (Fin (5404319552844595 / 2 ^ 53)) (Fin (5404319552844595 / 2 ^ 53))
             = Fin (3242591731706757 / 2 ^ 53)"
      unfolding dmul_def by (simp add: round64_def, subst b64_pos [where e = "- 2"])
        (simp_all add: round_half_even_def Let_def)
    have a: "dadd (Fin 0) (Fin (3242591731706757 / 2 ^ 53)) = Fin (3242591731706757 / 2 ^ 53)"
      unfolding dadd_def by (simp add: round64_def, subst b64_pos [where e = "- 2"])
        (simp_all add: round_half_even_def Let_def)
    have c: "dadd (Fin (1/2)) (fabs (Fin (3242591731706757 / 2 ^ 53)))
             = Fin (7746191359077253 / 2 ^ 53)"
      unfolding dadd_def by (simp add: round64_def, subst b64_pos [where e = "- 1"])
        (simp_all add: round_half_even_def Let_def)
    have n: "py_min (Fin (8106479329266893 / 2 ^ 53)) (Fin (7746191359077253 / 2 ^ 53))
             = Fin (7746191359077253 / 2 ^ 53)"
      by (simp add: py_min_def)
    have g: "fgt (Fin (3242591731706757 / 2 ^ 53)) (Fin (5404319552844595 / 2 ^ 54))"
      by simp
    note facts = py_sum_zero weight_complement m dmul_zero a c n g
    show ?thesis
      unfolding make_combined_decision_def Let_def b64_6_10 b64_3_10 b64_5_10 b64_9_10
      by (simp add: facts [simplified])
  qed
  have ex1: "(let d = make_combined_decision \<lparr> turtle_weight = b64 (6/10) \<rparr>
              (Some \<lparr> trend = Fin (1/2), technical = Fin 0, volume_signal = Fin 0 \<rparr>) None
    in traditional_score d = Fin (1/2) \<and> turtle_score d = Fin 0 \<and>
       total_score d = Fin (3602879701896397 / 2 ^ 54) \<and> action d = ''HOLD'' \<and>
       decision_confidence d = Fin (1/2))"
    unfolding hold Let_def by (simp only: combined_decision.simps simp_thms)
  have ex2: "(let d = make_combined_decision \<lparr> turtle_weight = b64 (6/10) \<rparr>
              (Some \<lparr> trend = Fin 0, technical = Fin 0, volume_signal = Fin 0 \<rparr>)
              (Some \<lparr> recommendation = ''BUY'', turtle_confidence = b64 (6/10) \<rparr>)
    in traditional_score d = Fin 0 \<and> turtle_score d = Fin (5404319552844595 / 2 ^ 53) \<and>
       total_score d = Fin (3242591731706757 / 2 ^ 53) \<and> action d = ''BUY'' \<and>
       decision_confidence d = Fin (7746191359077253 / 2 ^ 53))"
    unfolding buy Let_def by (simp only: combined_decision.simps simp_thms)
  have ops: "\<forall>a b. dsub (Fin a) (Fin b) = b64 (a - b) \<and> dmul (Fin a) (Fin b) = b64 (a * b) \<and>
          dadd (Fin a) (Fin b) = b64 (a + b)"
    by (simp add: dsub_def dmul_def dadd_def fsub_def round64_def)
  show ?thesis
    using general ops b64_3_10 b64_6_10 b64_2_10 b64_36_100 ex1 ex2 by (intro conjI)
qed

text \<open>
  In real arithmetic the rule is different.  With the double 0.6 for \<open>w\<close>, \<open>t = 0.75\<close> and
  \<open>u = 0\<close>: \<open>1 - w\<close> is the double 0.4, which is above 2/5, and \<open>0.75 * 0.4\<close> rounds to
  \<open>1351079888211149 / 2^52\<close> (printed 0.30000000000000004), which is above the double 0.3;
  the action is BUY with confidence 0.8.  The real number \<open>0.75 * (1 - 0.6) + 0 * 0.6\<close>
  is 0.3, which is not strictly greater than 0.3.
\<close>

theorem combined_score_is_rounded:
  "make_combined_decision \<lparr> turtle_weight = b64 (6/10) \<rparr>
     (Some \<lparr> trend = Fin (3/4), technical = Fin 0, volume_signal = Fin 0 \<rparr>) None
   = \<lparr> action = ''BUY'', decision_confidence = Fin (3602879701896397 / 2 ^ 52),
       traditional_score = Fin (3/4), turtle_score = Fin 0,
       total_score = Fin (1351079888211149 / 2 ^ 52) \<rparr> \<and>
   b64 (6/10) = Fin (5404319552844595 / 2 ^ 53) \<and>
   \<not> (3/4 * (1 - 6/10) + 0 * (6/10) > (3/10 :: real))"
proof -
  have m: "dmul (Fin (3/4)) (Fin (3602879701896397 / 2 ^ 53)) = Fin (1351079888211149 / 2 ^ 52)"
    unfolding dmul_def by (simp add: round64_def, subst b64_pos [where e = "- 2"])
      (simp_all add: round_half_even_def Let_def)
  have a: "dadd (Fin (1351079888211149 / 2 ^ 52)) (Fin 0) = Fin (1351079888211149 / 2 ^ 52)"
    unfolding dadd_def by (simp add: round64_def, subst b64_pos [where e = "- 2"])
      (simp_all add: round_half_even_def Let_def)
  have c: "dadd (Fin (1/2)) (fabs (Fin (1351079888211149 / 2 ^ 52)))
           = Fin (3602879701896397 / 2 ^ 52)"
    unfolding dadd_def by (simp add: round64_def, subst b64_pos [where e = "- 1"])
      (simp_all add: round_half_even_def Let_def)
  have n: "py_min (Fin (8106479329266893 / 2 ^ 53)) (Fin (3602879701896397 / 2 ^ 52))
           = Fin (3602879701896397 / 2 ^ 52)"
    by (simp add: py_min_def)
  have g: "fgt (Fin (1351079888211149 / 2 ^ 52)) (Fin (5404319552844595 / 2 ^ 54))"
    by simp
  have "make_combined_decision \<lparr> turtle_weight = b64 (6/10) \<rparr>
              (Some \<lparr> trend = Fin (3/4), technical = Fin 0, volume_signal = Fin 0 \<rparr>) None
      = \<lparr> action = ''BUY'', decision_confidence = Fin (3602879701896397 / 2 ^ 52),
          traditional_score = Fin (3/4), turtle_score = Fin 0,
          total_score = Fin (1351079888211149 / 2 ^ 52) \<rparr>"
    unfolding make_combined_decision_def Let_def b64_6_10 b64_3_10 b64_5_10 b64_9_10
    by (simp only: option.case retail_params.simps traditional_signals.simps
          py_sum_three_quarters weight_complement m dmul_zero a c n g if_True)
  moreover have "\<not> (3/4 * (1 - 6/10) + 0 * (6/10) > (3/10 :: real))"
    by simp
  ultimately show ?thesis
    using b64_6_10 by (intro conjI)
qed

subsection \<open>Risk assessment\<close>

lemma determine_risk_level_boundaries:
  "determine_risk_level 29.9 = Low_risk \<and> determine_risk_level 30 = Medium_risk \<and>
   determine_risk_level 59.9 = Medium_risk \<and> determine_risk_level 60 = High_risk"
  by (simp add: determine_risk_level_def)

text \<open>
  C9.  With sufficient data (at least 10 rows) the overall risk score is the unweighted
  arithmetic mean of the five factor scores, and the level is the one that
  \<open>_determine_risk_level\<close> gives for this mean.  The level is low exactly when the score is
  strictly below 30, medium exactly when it is at least 30 and strictly below 60, and high
  exactly when it is at least 60; 29.9 is low, 30.0 and 59.9 are medium, 60.0 is high.
\<close>

theorem risk_score_mean_and_level:
  "assess_stock_risk n a b c d e =
     (if n < 10 then \<lparr> risk_level = Data_insufficient, risk_score = 0, risk_factors = [] \<rparr>
      else \<lparr> risk_level =
               determine_risk_level
                 ((real_of_int a + real_of_int b + real_of_int c + real_of_int d + real_of_int e) / 5),
             risk_score =
               (real_of_int a + real_of_int b + real_of_int c + real_of_int d + real_of_int e) / 5,
             risk_factors = [a, b, c, d, e] \<rparr>) \<and>
   (determine_risk_level x = Low_risk \<longleftrightarrow> x < 30) \<and>
   (determine_risk_level x = Medium_risk \<longleftrightarrow> 30 \<le> x \<and> x < 60) \<and>
   (determine_risk_level x = High_risk \<longleftrightarrow> 60 \<le> x) \<and>
   determine_risk_level 29.9 = Low_risk \<and> determine_risk_level 30 = Medium_risk \<and>
   determine_risk_level 59.9 = Medium_risk \<and> determine_risk_level 60 = High_risk"
  using determine_risk_level_boundaries
  by (auto simp: assess_stock_risk_def np_mean_def Let_def determine_risk_level_def)

subsection \<open>Signal detector\<close>

lemma flt_not_isna: "flt x y \<Longrightarrow> \<not> isna x \<and> \<not> isna y"
  by (cases x; cases y) auto

lemma fle_not_isna: "fle x y \<Longrightarrow> \<not> isna x \<and> \<not> isna y"
  by (cases x; cases y) auto

text \<open>
  Each of the five blocks of the function appends at most one key to the dictionary built
  so far, so the result is the concatenation of five independent parts.
\<close>

lemma signal_block:
  "(if g then (if c then s @ [a] else if d then s @ [b] else s) else s)
     = s @ (if g \<and> c then [a] else if g \<and> d then [b] else [])"
  by simp

lemma get_latest_signals_blocks:
  assumes "2 \<le> length df"
  shows "get_latest_signals df =
     (let latest = last df; prev = df ! (length df - 2) in
      (if (\<not> isna (ma5 latest) \<and> \<not> isna (ma20 latest))
            \<and> fgt (ma5 latest) (ma20 latest) \<and> fle (ma5 prev) (ma20 prev) then [ma_golden_cross]
       else if (\<not> isna (ma5 latest) \<and> \<not> isna (ma20 latest))
            \<and> flt (ma5 latest) (ma20 latest) \<and> fge (ma5 prev) (ma20 prev) then [ma_death_cross]
       else []) @
      (if (\<not> isna (macd latest) \<and> \<not> isna (macd_signal latest))
            \<and> fgt (macd latest) (macd_signal latest) \<and> fle (macd prev) (macd_signal prev)
         then [macd_golden_cross]
       else if (\<not> isna (macd latest) \<and> \<not> isna (macd_signal latest))
            \<and> flt (macd latest) (macd_signal latest) \<and> fge (macd prev) (macd_signal prev)
         then [macd_death_cross]
       else []) @
      (if \<not> isna (rsi latest) \<and> fgt (rsi latest) (Fin 70) then [rsi_overbought]
       else if \<not> isna (rsi latest) \<and> flt (rsi latest) (Fin 30) then [rsi_oversold]
       else []) @
      (if (\<not> isna (kdj_k latest) \<and> \<not> isna (kdj_d latest))
            \<and> fgt (kdj_k latest) (kdj_d latest) \<and> fle (kdj_k prev) (kdj_d prev)
         then [kdj_golden_cross]
       else if (\<not> isna (kdj_k latest) \<and> \<not> isna (kdj_d latest))
            \<and> flt (kdj_k latest) (kdj_d latest) \<and> fge (kdj_k prev) (kdj_d prev)
         then [kdj_death_cross]
       else []) @
      (if (\<not> isna (row_close latest) \<and> \<not> isna (boll_upper latest) \<and> \<not> isna (boll_lower latest))
            \<and> fgt (row_close latest) (boll_upper latest) then [boll_breakthrough_upper]
       else if (\<not> isna (row_close latest) \<and> \<not> isna (boll_upper latest) \<and> \<not> isna (boll_lower latest))
            \<and> flt (row_close latest) (boll_lower latest) then [boll_breakthrough_lower]
       else []))"
proof -
  have ne: "\<not> (df = [] \<or> length df < 2)" using assms by auto
  show ?thesis
    unfolding get_latest_signals_def Let_def if_not_P [OF ne] signal_block
    by (simp only: append_Nil append_assoc)
qed

lemma get_latest_signals_short: "length df < 2 \<Longrightarrow> get_latest_signals df = []"
  by (simp add: get_latest_signals_def)

text \<open>
  C2, as the code has it.  A signal is active only when the frame has at least two rows and
  every column the signal depends on is present (not NaN) on the latest row; a crossover
  signal (MA, MACD, KDJ golden or death cross) is active only when these columns are
  present on the previous row as well.  The level signals (RSI overbought and oversold,
  Bollinger breakout) do not look at the previous row.
\<close>

theorem signals_active_only_when_inputs_present:
  assumes "s \<in> set (get_latest_signals df)"
  shows "2 \<le> length df \<and> present_on s (last df) \<and>
         (is_cross s \<longrightarrow> present_on s (df ! (length df - 2)))"
proof -
  have len: "2 \<le> length df"
    using assms get_latest_signals_short [of df] by (cases "length df < 2") auto
  from assms show ?thesis
    unfolding get_latest_signals_blocks [OF len] Let_def set_append Un_iff
    using len
    by (elim disjE)
       (auto simp: present_on_def split: if_splits dest: flt_not_isna fle_not_isna)
qed

lemma ma_golden_cross_example:
  "ma_golden_cross \<in> set (get_latest_signals [ma_row (Fin 9) (Fin 10), ma_row (Fin 11) (Fin 10)])"
  by (simp add: get_latest_signals_def ma_row_def Let_def)

theorem signals_active_only_when_inputs_present_witness:
  "ma_golden_cross \<in> set (get_latest_signals [ma_row (Fin 9) (Fin 10), ma_row (Fin 11) (Fin 10)]) \<and>
   present_on ma_golden_cross (ma_row (Fin 11) (Fin 10)) \<and>
   is_cross ma_golden_cross \<and>
   present_on ma_golden_cross (ma_row (Fin 9) (Fin 10))"
  using signals_active_only_when_inputs_present [OF ma_golden_cross_example]
    ma_golden_cross_example
  by simp

text \<open>
  The claim as written asks for presence on both rows for every signal.  It fails for a
  level signal: with RSI missing on the previous row and 80 on the latest row, the
  overbought signal is active.
\<close>

theorem rsi_signal_ignores_previous_row:
  "rsi_overbought \<in> set (get_latest_signals [rsi_row NaN, rsi_row (Fin 80)]) \<and>
   \<not> present_on rsi_overbought (rsi_row NaN)"
  by (simp add: get_latest_signals_def rsi_row_def Let_def present_on_def)

subsection \<open>KDJ\<close>

lemma smooth_Fin: "smooth (Fin a) (Fin b) = Fin (2/3 * a + 1/3 * b)"
  by (simp add: smooth_def)


lemma smooth_loop_length [simp]: "length (smooth_loop prev xs) = length xs"
  by (induction xs arbitrary: prev) (auto simp: Let_def)


lemma rolling_length [simp]: "length (rolling agg k xs) = length xs"
  by (simp add: rolling_def)


lemma rsv_series_length [simp]:
  "length highs = length closes \<Longrightarrow> length lows = length closes \<Longrightarrow>
   length (rsv_series highs lows closes k) = length closes"
  by (simp add: rsv_series_def Let_def)

lemma fsub_NaN [simp]: "fsub x NaN = NaN" "fsub NaN x = NaN"
  by (cases x; simp add: fsub_def)+









subsection \<open>Data sources: the registry\<close>

text \<open>
  The sources of the manager are the enabled sources with an adapter class whose
  constructor succeeds, in ascending order of configured priority (the sort is stable, so
  equal priorities keep the order of the dictionary), each once.
\<close>

lemma update_fresh: "k \<notin> fst ` set al \<Longrightarrow> AList.update k v al = al @ [(k, v)]"
  by (induction al) auto

lemma merge_config_distinct: "distinct (map fst (merge_config config))"
proof -
  have "distinct (map fst dc) \<Longrightarrow>
        distinct (map fst (fold (\<lambda>(source_name, source_config) dc.
             case map_of dc source_name of
               Some d \<Rightarrow> AList.update source_name (config_update d source_config) dc
             | None \<Rightarrow> AList.update source_name source_config dc) config dc))" for dc
    by (induction config arbitrary: dc) (auto simp: AList.distinct_update split: option.splits)
  moreover have "distinct (map fst default_config)"
    by (simp add: default_config_def)
  ultimately show ?thesis
    unfolding merge_config_def by blast
qed

lemma sort_key_distinct_fst:
  "distinct (map fst xs) \<Longrightarrow> distinct (map fst (sort_key f xs))"
  by (simp add: distinct_map)

lemma create_fold_sources:
  assumes "distinct (map fst xs)" and "fst ` set xs \<inter> fst ` set (sources m0) = {}"
  shows "sources (fold (\<lambda>(source_name, source_config) manager.
                 if \<not> get_enabled source_config then manager
                 else if source_name \<in> set known_sources \<and> constructs (net source_name)
                   then add_source manager \<lparr> name = source_name, is_connected = False \<rparr>
                 else manager) xs m0)
       = sources m0 @
         map (\<lambda>(n, c). (n, \<lparr> name = n, is_connected = False \<rparr>))
           (filter (\<lambda>(n, c). get_enabled c \<and> n \<in> set known_sources \<and> constructs (net n)) xs)"
  using assms
proof (induction xs arbitrary: m0)
  case Nil
  then show ?case by simp
next
  case (Cons x xs)
  obtain n c where x: "x = (n, c)" by (cases x)
  from Cons.prems have d: "distinct (map fst xs)" and nx: "n \<notin> fst ` set xs"
    and n0: "n \<notin> fst ` set (sources m0)"
    and dj: "fst ` set xs \<inter> fst ` set (sources m0) = {}"
    by (auto simp: x)
  show ?case
  proof (cases "get_enabled c \<and> n \<in> set known_sources \<and> constructs (net n)")
    case True
    let ?m = "add_source m0 \<lparr> name = n, is_connected = False \<rparr>"
    have s: "sources ?m = sources m0 @ [(n, \<lparr> name = n, is_connected = False \<rparr>)]"
      using n0 by (simp add: add_source_def update_fresh)
    have "fst ` set xs \<inter> fst ` set (sources ?m) = {}"
      using dj nx by (auto simp: s)
    from Cons.IH [OF d this] True show ?thesis
      by (simp add: x s)
  next
    case False
    from Cons.IH [OF d dj] False show ?thesis
      by (auto simp: x)
  qed
qed

lemma create_sources:
  "sources (create_data_source_manager net config)
   = map (\<lambda>(n, c). (n, \<lparr> name = n, is_connected = False \<rparr>))
       (filter (\<lambda>(n, c). get_enabled c \<and> n \<in> set known_sources \<and> constructs (net n))
          (sort_key (\<lambda>(n, c). get_priority c) (merge_config config)))"
  unfolding create_data_source_manager_def Let_def
  by (subst create_fold_sources) (simp_all add: sort_key_distinct_fst merge_config_distinct)


lemma registered_sorted:
  "sorted (map (configured_priority config)
     (map fst (filter P (sort_key (\<lambda>(n, c). get_priority c) (merge_config config)))))"
proof -
  let ?mc = "merge_config config"
  let ?ys = "filter P (sort_key (\<lambda>(n, c). get_priority c) ?mc)"
  have "configured_priority config (fst x) = (\<lambda>(n, c). get_priority c) x" if "x \<in> set ?ys" for x
  proof -
    obtain n c where x: "x = (n, c)" by (cases x)
    from that have "(n, c) \<in> set ?mc" by (simp add: x)
    then have "map_of ?mc n = Some c"
      using merge_config_distinct [of config] by simp
    then show ?thesis by (simp add: x configured_priority_def)
  qed
  then have eq: "map (configured_priority config) (map fst ?ys) = map (\<lambda>(n, c). get_priority c) ?ys"
    by simp
  have "sorted (map (\<lambda>(n, c). get_priority c) ?ys)"
    by (rule sorted_filter) (rule sorted_sort_key)
  then show ?thesis
    unfolding eq .
qed

lemma connect_all_sources:
  "sources (fst (connect_all net m))
   = map (\<lambda>(n, source). (n, source \<lparr> is_connected := connects (net n) \<rparr>)) (sources m)"
  by (simp add: connect_all_def)

lemma set_primary_source_sources:
  "set_primary_source m0 p = Inr m \<Longrightarrow> sources m = sources m0"
  by (auto simp: set_primary_source_def split: if_splits)

lemma get_data_source_manager_sources:
  assumes "get_data_source_manager net config = Inr m"
  shows "sources m = sources (fst (connect_all net (create_data_source_manager net config)))"
  using assms
  by (auto simp: get_data_source_manager_def Let_def split: prod.splits if_splits option.splits
           dest: set_primary_source_sources)

lemma manager_registry:
  assumes "get_data_source_manager net config = Inr m"
  shows "\<exists>ns. sources m = map (\<lambda>n. (n, \<lparr> name = n, is_connected = connects (net n) \<rparr>)) ns
            \<and> distinct ns \<and> sorted (map (configured_priority config) ns)"
proof -
  let ?ys = "filter (\<lambda>(n, c). get_enabled c \<and> n \<in> set known_sources \<and> constructs (net n))
          (sort_key (\<lambda>(n, c). get_priority c) (merge_config config))"
  have "sources m = map (\<lambda>n. (n, \<lparr> name = n, is_connected = connects (net n) \<rparr>)) (map fst ?ys)"
    by (simp add: get_data_source_manager_sources [OF assms] connect_all_sources create_sources
                  case_prod_unfold comp_def)
  moreover have "distinct (map fst ?ys)"
    by (rule distinct_map_filter) (simp add: sort_key_distinct_fst merge_config_distinct)
  moreover have "sorted (map (configured_priority config) (map fst ?ys))"
    by (rule registered_sorted)
  ultimately show ?thesis by blast
qed

lemma registry_lookup:
  assumes "sources m = map (\<lambda>n. (n, \<lparr> name = n, is_connected = connects (net n) \<rparr>)) ns"
  shows "get_available_sources m = filter (\<lambda>n. connects (net n)) ns"
    and "map fst (sources m) = ns"
    and "n \<in> set ns \<Longrightarrow>
         get_source_by_name m n = Some \<lparr> name = n, is_connected = connects (net n) \<rparr>"
proof -
  show "get_available_sources m = filter (\<lambda>n. connects (net n)) ns"
    by (simp add: get_available_sources_def assms filter_map comp_def)
  show "map fst (sources m) = ns"
    by (simp add: assms comp_def)
  show "get_source_by_name m n = Some \<lparr> name = n, is_connected = connects (net n) \<rparr>"
    if "n \<in> set ns"
    using that by (simp add: get_source_by_name_def assms map_of_map_restrict)
qed


text \<open>Building the global manager never raises.\<close>

lemma get_data_source_manager_total:
  "\<exists>m. get_data_source_manager net config = Inr m"
proof -
  let ?m0 = "create_data_source_manager net config"
  let ?m1 = "fst (connect_all net ?m0)"
  let ?cs = "map fst (filter snd (snd (connect_all net ?m0)))"
  have names: "map fst (sources ?m1) = map fst (sources ?m0)"
    by (simp add: connect_all_def case_prod_unfold comp_def)
  have cs: "set ?cs \<subseteq> set (map fst (sources ?m1))"
    unfolding names by (force simp: connect_all_def)
  have av: "set (get_available_sources ?m1) \<subseteq> set (map fst (sources ?m1))"
    by (auto simp: get_available_sources_def)
  show ?thesis
  proof (cases "get_available_sources ?m1 = []")
    case True
    then show ?thesis
      by (simp add: get_data_source_manager_def case_prod_unfold)
  next
    case False
    show ?thesis
    proof (cases "find (\<lambda>source_name. source_name \<in> set ?cs) priority_order")
      case None
      from False have "hd (get_available_sources ?m1) \<in> set (map fst (sources ?m1))"
        using av hd_in_set by blast
      with None False show ?thesis
        by (simp add: get_data_source_manager_def case_prod_unfold set_primary_source_def Let_def)
    next
      case (Some p)
      then have "p \<in> set ?cs"
        by (auto simp: find_Some_iff)
      with cs have "p \<in> set (map fst (sources ?m1))"
        by blast
      with Some False show ?thesis
        by (simp add: get_data_source_manager_def case_prod_unfold set_primary_source_def Let_def)
    qed
  qed
qed

text \<open>The example configuration on the two example networks.\<close>

lemma swapped_sorted:
  "sort_key (\<lambda>(n, c). get_priority c) (merge_config swapped_config)
   = [(''sina'', \<lparr> enabled = Some True, priority = Some 1 \<rparr>),
      (''tushare'', \<lparr> enabled = Some True, priority = Some 2 \<rparr>),
      (''akshare'', \<lparr> enabled = Some True, priority = Some 3 \<rparr>),
      (''eastmoney'', \<lparr> enabled = Some True, priority = Some 4 \<rparr>),
      (''qqstock'', \<lparr> enabled = Some True, priority = Some 5 \<rparr>),
      (''wangyi'', \<lparr> enabled = Some True, priority = Some 6 \<rparr>)]"
  by (simp add: merge_config_def swapped_config_def default_config_def config_update_def
                get_priority_def)

lemma swapped_healthy_manager:
  "get_data_source_manager healthy_net swapped_config = Inr healthy_manager"
  by (simp add: get_data_source_manager_def create_data_source_manager_def swapped_sorted
                connect_all_def get_available_sources_def set_primary_source_def add_source_def
                get_enabled_def known_sources_def healthy_net_def priority_order_def
                healthy_manager_def
           del: set_filter)

lemma swapped_failover_manager:
  "get_data_source_manager failover_net swapped_config = Inr failover_manager"
  by (simp add: get_data_source_manager_def create_data_source_manager_def swapped_sorted
                connect_all_def get_available_sources_def set_primary_source_def add_source_def
                get_enabled_def known_sources_def failover_net_def priority_order_def
                failover_manager_def
           del: set_filter)

subsection \<open>Data sources: the primary source\<close>

text \<open>
  With no source connected the primary source stays the one that \<open>add_source\<close> set: the
  first source added, which is the first in ascending configured priority.
\<close>

lemma create_fold_primary:
  "primary_source (fold (\<lambda>(source_name, source_config) manager.
                 if \<not> get_enabled source_config then manager
                 else if source_name \<in> set known_sources \<and> constructs (net source_name)
                   then add_source manager \<lparr> name = source_name, is_connected = False \<rparr>
                 else manager) xs m0)
   = (case primary_source m0 of
        Some p \<Rightarrow> Some p
      | None \<Rightarrow>
          (case filter (\<lambda>(n, c). get_enabled c \<and> n \<in> set known_sources \<and> constructs (net n)) xs of
             [] \<Rightarrow> None
           | x # _ \<Rightarrow> Some (fst x)))"
proof (induction xs arbitrary: m0)
  case Nil
  show ?case by (simp split: option.splits)
next
  case (Cons x xs)
  obtain n c where x: "x = (n, c)" by (cases x)
  show ?case
  proof (cases "get_enabled c \<and> n \<in> set known_sources \<and> constructs (net n)")
    case True
    then show ?thesis
      by (cases "primary_source m0") (simp_all add: x Cons.IH add_source_def)
  next
    case False
    then show ?thesis
      by (cases "primary_source m0") (auto simp: x Cons.IH)
  qed
qed

lemma primary_fallback:
  assumes "get_data_source_manager net config = Inr m"
    and "get_available_sources m = []"
  shows "primary_source m = (case sources m of [] \<Rightarrow> None | x # _ \<Rightarrow> Some (fst x))"
proof -
  let ?m0 = "create_data_source_manager net config"
  let ?m1 = "fst (connect_all net ?m0)"
  let ?ys = "filter (\<lambda>(n, c). get_enabled c \<and> n \<in> set known_sources \<and> constructs (net n))
          (sort_key (\<lambda>(n, c). get_priority c) (merge_config config))"
  have "sources m = sources ?m1"
    by (rule get_data_source_manager_sources [OF assms(1)])
  with assms(2) have "get_available_sources ?m1 = []"
    by (simp add: get_available_sources_def)
  with assms(1) have m: "m = ?m1"
    by (simp add: get_data_source_manager_def case_prod_unfold)
  have p: "primary_source ?m1 = (case ?ys of [] \<Rightarrow> None | x # _ \<Rightarrow> Some (fst x))"
    by (simp add: connect_all_def create_data_source_manager_def create_fold_primary)
  have s: "sources ?m1 = map (\<lambda>(n, c). (n, \<lparr> name = n, is_connected = connects (net n) \<rparr>)) ?ys"
    by (simp add: connect_all_sources create_sources case_prod_unfold comp_def)
  show ?thesis
    unfolding m p s by (cases ?ys) (simp_all add: case_prod_unfold)
qed


text \<open>
  With a source connected, the primary source is the first connected name of the fixed
  list \<open>priority_order\<close>.  When the configured priorities order the sources as that list
  does, as the default priorities do, this is the first connected source in ascending
  configured priority.
\<close>

lemma find_member_filter:
  assumes "\<And>n. n \<in> set xs \<Longrightarrow> (n \<in> S) = P n"
  shows "find (\<lambda>n. n \<in> S) xs = (case filter P xs of [] \<Rightarrow> None | y # _ \<Rightarrow> Some y)"
  using assms by (induction xs) auto

lemma map_filter_distinct:
  assumes "distinct (map f xs)"
  shows "map f (filter P xs) = filter (\<lambda>y. y \<in> set (map f (filter P xs))) (map f xs)"
proof -
  from assms have inj: "inj_on f (set xs)"
    by (simp add: distinct_map)
  have "(f x \<in> set (map f (filter P xs))) = P x" if "x \<in> set xs" for x
    using that inj by (auto dest: inj_onD)
  then have "filter (\<lambda>x. f x \<in> set (map f (filter P xs))) xs = filter P xs"
    by (intro filter_cong) simp_all
  then show ?thesis
    by (simp add: filter_map comp_def)
qed

lemma primary_by_priority_in_default_order:
  assumes "get_data_source_manager net config = Inr m"
    and "map fst (sort_key (\<lambda>(n, c). get_priority c) (merge_config config)) = priority_order"
    and "get_available_sources m \<noteq> []"
  shows "primary_source m = Some (hd (get_available_sources m))"
proof -
  let ?m0 = "create_data_source_manager net config"
  let ?m1 = "fst (connect_all net ?m0)"
  let ?srt = "sort_key (\<lambda>(n, c). get_priority c) (merge_config config)"
  let ?ok = "\<lambda>(n, c). get_enabled c \<and> n \<in> set known_sources \<and> constructs (net n)"
  let ?names = "map fst (filter ?ok ?srt)"
  let ?Q = "\<lambda>n. n \<in> set ?names \<and> connects (net n)"
  have s0: "sources ?m0 = map (\<lambda>n. (n, \<lparr> name = n, is_connected = False \<rparr>)) ?names"
    by (simp add: create_sources case_prod_unfold comp_def)
  have s1: "sources ?m1 = map (\<lambda>n. (n, \<lparr> name = n, is_connected = connects (net n) \<rparr>)) ?names"
    by (simp add: connect_all_sources s0 comp_def)
  have "?names = filter (\<lambda>n. n \<in> set ?names) (map fst ?srt)"
    by (rule map_filter_distinct) (simp add: sort_key_distinct_fst merge_config_distinct)
  then have names: "?names = filter (\<lambda>n. n \<in> set ?names) priority_order"
    by (simp only: assms(2))
  have av1: "get_available_sources ?m1 = filter (\<lambda>n. connects (net n)) ?names"
    by (rule registry_lookup(1) [OF s1])
  also have "\<dots> = filter (\<lambda>n. connects (net n)) (filter (\<lambda>n. n \<in> set ?names) priority_order)"
    by (rule arg_cong [OF names])
  also have "\<dots> = filter ?Q priority_order"
    by simp
  finally have av: "get_available_sources ?m1 = filter ?Q priority_order" .
  have cs: "map fst (filter snd (snd (connect_all net ?m0))) = filter (\<lambda>n. connects (net n)) ?names"
    by (simp add: connect_all_def s0 filter_map comp_def)
  have "sources m = sources ?m1"
    by (rule get_data_source_manager_sources [OF assms(1)])
  then have avm: "get_available_sources m = get_available_sources ?m1"
    by (simp add: get_available_sources_def)
  with assms(3) av obtain y ys where y: "filter ?Q priority_order = y # ys"
    by (cases "filter ?Q priority_order") simp_all
  have "find (\<lambda>n. n \<in> set (filter (\<lambda>n. connects (net n)) ?names)) priority_order
        = (case filter ?Q priority_order of [] \<Rightarrow> None | y # _ \<Rightarrow> Some y)"
    by (rule find_member_filter) auto
  then have f: "find (\<lambda>n. n \<in> set (map fst (filter snd (snd (connect_all net ?m0))))) priority_order
        = Some y"
    by (simp only: cs y list.case)
  have "y \<in> set (filter ?Q priority_order)"
    by (simp only: y list.set_intros)
  then have "y \<in> set ?names"
    by simp
  then have yin: "y \<in> set (map fst (sources ?m1))"
    by (simp add: s1 comp_def)
  have ne: "get_available_sources ?m1 \<noteq> []"
    by (simp only: av y) simp
  from assms(1) have "m = ?m1 \<lparr> primary_source := Some y \<rparr>"
    unfolding get_data_source_manager_def case_prod_unfold Let_def
    using ne f yin by (simp add: set_primary_source_def)
  then have "primary_source m = Some y"
    by simp
  moreover have "hd (get_available_sources m) = y"
    by (simp only: avm av y list.sel)
  ultimately show ?thesis
    by (simp only:)
qed

lemma default_config_in_default_order:
  "map fst (sort_key (\<lambda>(n, c). get_priority c) (merge_config [])) = priority_order"
  by (simp add: merge_config_def default_config_def get_priority_def priority_order_def)

text \<open>
  C3.  The fallback holds (\<open>primary_fallback\<close>), and so does the selection whenever the
  configured priorities order the sources as the default ones do
  (\<open>primary_by_priority_in_default_order\<close>).  For other priority assignments the
  selection does not follow the configuration: with priority 1 given to \<open>sina\<close> and
  priority 4 to \<open>eastmoney\<close>, and every source connected, the sources in ascending
  configured priority are \<open>sina\<close>, \<open>tushare\<close>, \<open>akshare\<close>, \<open>eastmoney\<close>, \<open>qqstock\<close>,
  \<open>wangyi\<close>, and the primary source chosen is \<open>eastmoney\<close>, of priority 4, not \<open>sina\<close>.
\<close>

theorem primary_source_follows_fixed_order:
  "get_data_source_manager healthy_net swapped_config = Inr healthy_manager \<and>
   get_available_sources healthy_manager
     = [''sina'', ''tushare'', ''akshare'', ''eastmoney'', ''qqstock'', ''wangyi''] \<and>
   map (configured_priority swapped_config) (get_available_sources healthy_manager)
     = [1, 2, 3, 4, 5, 6] \<and>
   primary_source healthy_manager = Some ''eastmoney''"
proof -
  have av: "get_available_sources healthy_manager
            = [''sina'', ''tushare'', ''akshare'', ''eastmoney'', ''qqstock'', ''wangyi'']"
    by (simp add: get_available_sources_def healthy_manager_def)
  have "map (configured_priority swapped_config)
          [''sina'', ''tushare'', ''akshare'', ''eastmoney'', ''qqstock'', ''wangyi'']
        = [1, 2, 3, 4, 5, 6]"
    by (simp add: configured_priority_def merge_config_def
                  swapped_config_def default_config_def config_update_def get_priority_def)
  with swapped_healthy_manager av show ?thesis
    by (simp add: healthy_manager_def)
qed


subsection \<open>Analysis engine: fetching the history\<close>

lemma available_lookup:
  assumes "get_data_source_manager net config = Inr m"
    and "n \<in> set (get_available_sources m)"
  shows "\<exists>s. get_source_by_name m n = Some s \<and> is_connected s"
proof -
  from manager_registry [OF assms(1)] obtain ns
    where ns: "sources m = map (\<lambda>n. (n, \<lparr> name = n, is_connected = connects (net n) \<rparr>)) ns"
    by blast
  from assms(2) have "n \<in> set ns" and "connects (net n)"
    by (simp_all add: registry_lookup(1) [OF ns])
  then show ?thesis
    by (simp add: registry_lookup(3) [OF ns])
qed

lemma fetch_pass_skip:
  assumes "\<And>n. n \<in> set pre \<Longrightarrow> \<exists>s. get_source_by_name m n = Some s \<and> is_connected s"
    and "\<And>n. n \<in> set pre \<Longrightarrow>
           history (net n) days = Raises \<or> history (net n) days = Returns []"
  shows "fetch_pass net m days (pre @ rest) ([], calls)
       = fetch_pass net m days rest ([], calls @ map (\<lambda>n. (n, days)) pre)"
  using assms
proof (induction pre arbitrary: calls)
  case Nil
  show ?case by simp
next
  case (Cons n pre)
  from Cons.prems(1) [of n] obtain s
    where s: "get_source_by_name m n = Some s" "is_connected s" by auto
  from Cons.prems(2) [of n]
  have h: "history (net n) days = Raises \<or> history (net n) days = Returns []" by simp
  have "fetch_pass net m days (pre @ rest) ([], calls @ [(n, days)])
       = fetch_pass net m days rest ([], (calls @ [(n, days)]) @ map (\<lambda>n. (n, days)) pre)"
    by (rule Cons.IH) (simp_all add: Cons.prems)
  with s h show ?case by auto
qed

lemma fetch_pass_hit:
  assumes "get_source_by_name m a = Some s" and "is_connected s"
    and "history (net a) days = Returns rows" and "rows \<noteq> []"
  shows "fetch_pass net m days (a # post) (df, calls) = (rows, calls @ [(a, days)])"
  using assms by simp

lemma fetch_pass_first_success:
  assumes "\<And>n. n \<in> set (pre @ a # post) \<Longrightarrow>
             \<exists>s. get_source_by_name m n = Some s \<and> is_connected s"
    and "\<And>n. n \<in> set pre \<Longrightarrow>
           history (net n) days = Raises \<or> history (net n) days = Returns []"
    and "history (net a) days = Returns rows" and "rows \<noteq> []"
  shows "fetch_pass net m days (pre @ a # post) ([], calls)
       = (rows, calls @ map (\<lambda>n. (n, days)) (pre @ [a]))"
proof -
  from assms(1) [of a] obtain s
    where s: "get_source_by_name m a = Some s" "is_connected s" by auto
  have "fetch_pass net m days (pre @ a # post) ([], calls)
       = fetch_pass net m days (a # post) ([], calls @ map (\<lambda>n. (n, days)) pre)"
    by (rule fetch_pass_skip) (simp_all add: assms(1,2))
  also have "\<dots> = (rows, (calls @ map (\<lambda>n. (n, days)) pre) @ [(a, days)])"
    using s assms(3,4) by (simp add: fetch_pass_hit)
  finally show ?thesis by simp
qed

lemma fetch_pass_all_empty:
  assumes "\<And>n. n \<in> set ns \<Longrightarrow> \<exists>s. get_source_by_name m n = Some s \<and> is_connected s"
    and "\<And>n. n \<in> set ns \<Longrightarrow>
           history (net n) days = Raises \<or> history (net n) days = Returns []"
  shows "fetch_pass net m days ns ([], calls) = ([], calls @ map (\<lambda>n. (n, days)) ns)"
  using fetch_pass_skip [of ns m net days "[]" calls] assms by simp

lemma days_before_Inr:
  "\<bar>days\<bar> \<le> 999999999 \<Longrightarrow> 0 < today - days \<Longrightarrow> today - days \<le> 3652059 \<Longrightarrow>
   days_before today days = Inr (today - days)"
  by (simp add: days_before_def timedelta_def datetime_minus_def)

text \<open>
  When the start date of the window is not a date, the function raises before the
  database or any source is asked.
\<close>

lemma days_before_Inl:
  "999999999 < \<bar>days\<bar> \<or> today - days \<le> 0 \<or> 3652059 < today - days \<Longrightarrow>
   days_before today days = Inl OverflowError"
  by (auto simp: days_before_def timedelta_def datetime_minus_def)

lemma get_stock_data_overflow:
  "999999999 < \<bar>days\<bar> \<or> today - days \<le> 0 \<or> 3652059 < today - days \<Longrightarrow>
   get_stock_data net m today db days force_update = Inl OverflowError"
  by (simp add: get_stock_data_def days_before_Inl)

text \<open>
  C1.  Let the manager be the one built from a configuration, let the database cache be
  bypassed (\<open>force_update\<close>), and let the start of the window, \<open>days\<close> days before today, be
  a date (between 0001-01-01 and 9999-12-31, with \<open>days\<close> of magnitude at most 999999999).
  The sources of the manager are in ascending order of configured priority, each once,
  and the available sources are those of them that connected, in that order.  If the
  available sources are \<open>pre @ a # post\<close>, every source of \<open>pre\<close> raises or returns an
  empty frame and \<open>a\<close> returns the non-empty frame \<open>rows\<close>, then \<open>_get_stock_data\<close> returns
  \<open>rows\<close>, and the calls it made are those to \<open>pre\<close> and to \<open>a\<close>, in this order: no source
  of \<open>post\<close> is consulted.  In particular, when the sources before \<open>a\<close> in priority order
  are all disconnected, \<open>pre\<close> is empty and \<open>a\<close> is the only source consulted.
\<close>

theorem failover_order:
  assumes "get_data_source_manager net config = Inr m"
    and "get_available_sources m = pre @ a # post"
    and "\<forall>n \<in> set pre. history (net n) days = Raises \<or> history (net n) days = Returns []"
    and "history (net a) days = Returns rows" and "rows \<noteq> []"
    and "\<bar>days\<bar> \<le> 999999999" and "0 < today - days" and "today - days \<le> 3652059"
  shows "sorted (map (configured_priority config) (map fst (sources m)))
       \<and> distinct (map fst (sources m))
       \<and> get_available_sources m = filter (\<lambda>n. connects (net n)) (map fst (sources m))
       \<and> get_stock_data net m today db days True
           = Inr (rows, map (\<lambda>n. (n, days)) (pre @ [a]))"
proof -
  from manager_registry [OF assms(1)] obtain ns
    where ns: "sources m = map (\<lambda>n. (n, \<lparr> name = n, is_connected = connects (net n) \<rparr>)) ns"
      and d: "distinct ns" and srt: "sorted (map (configured_priority config) ns)"
    by blast
  have names: "map fst (sources m) = ns"
    by (rule registry_lookup(2) [OF ns])
  have av: "get_available_sources m = filter (\<lambda>n. connects (net n)) ns"
    by (rule registry_lookup(1) [OF ns])
  have "fetch_pass net m days (pre @ a # post) ([], [])
       = (rows, [] @ map (\<lambda>n. (n, days)) (pre @ [a]))"
  proof (rule fetch_pass_first_success)
    fix n assume "n \<in> set (pre @ a # post)"
    then show "\<exists>s. get_source_by_name m n = Some s \<and> is_connected s"
      using available_lookup [OF assms(1), of n] by (simp add: assms(2))
  next
    fix n assume "n \<in> set pre"
    then show "history (net n) days = Raises \<or> history (net n) days = Returns []"
      using assms(3) by blast
  qed (rule assms(4), rule assms(5))
  then have "get_stock_data net m today db days True
             = Inr (rows, map (\<lambda>n. (n, days)) (pre @ [a]))"
    using assms(5) by (simp add: get_stock_data_def assms(2) days_before_Inr [OF assms(6-8)])
  with srt d av names show ?thesis by simp
qed

text \<open>
  An instance, on 2025-01-01 (ordinal 739252) with a window of 250 days: priority 1 for
  \<open>sina\<close>, which is disconnected; \<open>tushare\<close> (priority 2) has no data and \<open>akshare\<close>
  (priority 3) has two rows.  These two are consulted, in this order, and the rows of
  \<open>akshare\<close> are returned.
\<close>

theorem failover_order_witness:
  "get_data_source_manager failover_net swapped_config = Inr failover_manager \<and>
   map fst (sources failover_manager)
     = [''sina'', ''tushare'', ''akshare'', ''eastmoney'', ''qqstock'', ''wangyi''] \<and>
   map (configured_priority swapped_config) (map fst (sources failover_manager))
     = [1, 2, 3, 4, 5, 6] \<and>
   get_available_sources failover_manager
     = [''tushare'', ''akshare'', ''eastmoney'', ''qqstock'', ''wangyi''] \<and>
   get_stock_data failover_net failover_manager 739252 [] 250 True
     = Inr ([(), ()], [(''tushare'', 250), (''akshare'', 250)])"
proof -
  have av: "get_available_sources failover_manager
            = [''tushare''] @ ''akshare'' # [''eastmoney'', ''qqstock'', ''wangyi'']"
    by (simp add: get_available_sources_def failover_manager_def)
  have pr: "map (configured_priority swapped_config) (map fst (sources failover_manager))
            = [1, 2, 3, 4, 5, 6]"
    by (simp add: configured_priority_def failover_manager_def merge_config_def
                  swapped_config_def default_config_def config_update_def get_priority_def)
  have "get_stock_data failover_net failover_manager 739252 [] 250 True
        = Inr ([(), ()], map (\<lambda>n. (n, 250)) ([''tushare''] @ [''akshare'']))"
    using failover_order [OF swapped_failover_manager av, of 250 "[(), ()]" 739252 "[]"]
    by (simp add: failover_net_def)
  with swapped_failover_manager av pr show ?thesis
    by (simp add: failover_manager_def)
qed

text \<open>
  Without the condition on the start date the property fails.  On the same day, network
  and manager, a window of 1000000 days starts before 0001-01-01: \<open>akshare\<close> is connected
  and has two rows for that window, and \<open>_get_stock_data\<close> raises OverflowError instead of
  returning them.
\<close>

theorem failover_needs_start_date:
  "get_data_source_manager failover_net swapped_config = Inr failover_manager \<and>
   get_available_sources failover_manager
     = [''tushare'', ''akshare'', ''eastmoney'', ''qqstock'', ''wangyi''] \<and>
   history (failover_net ''tushare'') 1000000 = Returns [] \<and>
   history (failover_net ''akshare'') 1000000 = Returns [(), ()] \<and>
   get_stock_data failover_net failover_manager 739252 [] 1000000 True = Inl OverflowError"
proof -
  have "get_available_sources failover_manager
            = [''tushare'', ''akshare'', ''eastmoney'', ''qqstock'', ''wangyi'']"
    by (simp add: get_available_sources_def failover_manager_def)
  moreover have "get_stock_data failover_net failover_manager 739252 [] 1000000 True
                 = Inl OverflowError"
    by (simp add: get_stock_data_def days_before_def timedelta_def datetime_minus_def)
  ultimately show ?thesis
    using swapped_failover_manager by (simp add: failover_net_def)
qed

text \<open>
  C4.  Let the manager be the one built from a configuration, let the window be longer
  than 30 days and start on a date (\<open>days\<close> is less than the ordinal of today, which is a
  date), and let the database cache not answer (\<open>force_update\<close>, or the database frame is
  empty or covers less than 80 percent of the window).  If every available source raises
  or returns an empty frame for the full window and for a window of 30 days, then
  \<open>_get_stock_data\<close> returns the empty frame and raises nothing; the calls it made are one
  to every available source for the full window, then one to every available source for
  30 days, both in the order of the available sources.
\<close>

theorem short_window_retry:
  assumes "get_data_source_manager net config = Inr m"
    and "force_update \<or> db = [] \<or> real (length db) < real_of_int days * 0.8"
    and "30 < days" and "days < today" and "today \<le> 3652059"
    and "\<forall>n \<in> set (get_available_sources m).
           history (net n) days = Raises \<or> history (net n) days = Returns []"
    and "\<forall>n \<in> set (get_available_sources m).
           history (net n) 30 = Raises \<or> history (net n) 30 = Returns []"
  shows "get_stock_data net m today db days force_update
       = Inr ([], map (\<lambda>n. (n, days)) (get_available_sources m)
                  @ map (\<lambda>n. (n, 30)) (get_available_sources m))"
proof -
  let ?av = "get_available_sources m"
  have c: "\<exists>s. get_source_by_name m n = Some s \<and> is_connected s" if "n \<in> set ?av" for n
    using available_lookup [OF assms(1) that] .
  have p1: "fetch_pass net m days ?av ([], []) = ([], [] @ map (\<lambda>n. (n, days)) ?av)"
    by (rule fetch_pass_all_empty) (use c assms(6) in blast)+
  have p2: "fetch_pass net m 30 ?av ([], map (\<lambda>n. (n, days)) ?av)
          = ([], map (\<lambda>n. (n, days)) ?av @ map (\<lambda>n. (n, 30)) ?av)"
    by (rule fetch_pass_all_empty) (use c assms(7) in blast)+
  from assms(2) have nc: "\<not> (\<not> force_update \<and> db \<noteq> [] \<and> real_of_int days * 0.8 \<le> real (length db))"
    by auto
  have d1: "days_before today days = Inr (today - days)"
    by (rule days_before_Inr) (use assms(3-5) in simp_all)
  have d2: "days_before today 30 = Inr (today - 30)"
    by (rule days_before_Inr) (use assms(3-5) in simp_all)
  show ?thesis
    unfolding get_stock_data_def d1 d2 sum.case if_not_P [OF nc] Let_def
    using p1 p2 assms(3) by simp
qed

text \<open>
  An instance, on 2025-01-01: every source is connected and has no data, the database is
  empty, and the window is 250 days.
\<close>

theorem short_window_retry_witness:
  "get_data_source_manager healthy_net swapped_config = Inr healthy_manager \<and>
   get_stock_data healthy_net healthy_manager 739252 [] 250 False
     = Inr ([], [(''sina'', 250), (''tushare'', 250), (''akshare'', 250),
                 (''eastmoney'', 250), (''qqstock'', 250), (''wangyi'', 250),
                 (''sina'', 30), (''tushare'', 30), (''akshare'', 30),
                 (''eastmoney'', 30), (''qqstock'', 30), (''wangyi'', 30)])"
proof -
  have av: "get_available_sources healthy_manager
            = [''sina'', ''tushare'', ''akshare'', ''eastmoney'', ''qqstock'', ''wangyi'']"
    by (simp add: get_available_sources_def healthy_manager_def)
  have "get_stock_data healthy_net healthy_manager 739252 [] 250 False
        = Inr ([], map (\<lambda>n. (n, 250)) (get_available_sources healthy_manager)
                   @ map (\<lambda>n. (n, 30)) (get_available_sources healthy_manager))"
    using short_window_retry [OF swapped_healthy_manager, of False "[]" 250 739252]
    by (simp add: healthy_net_def)
  with swapped_healthy_manager show ?thesis
    by (simp add: av)
qed

text \<open>
  Without the condition on the start date the property fails.  On the same day, network
  and manager, with the database empty, a window of 1000000 days is longer than 30 days
  and every source returns an empty frame for it and for 30 days; \<open>_get_stock_data\<close>
  raises OverflowError.
\<close>

theorem short_window_retry_needs_start_date:
  "get_data_source_manager healthy_net swapped_config = Inr healthy_manager \<and>
   get_available_sources healthy_manager
     = [''sina'', ''tushare'', ''akshare'', ''eastmoney'', ''qqstock'', ''wangyi''] \<and>
   (30 :: int) < 1000000 \<and>
   history (healthy_net ''sina'') 1000000 = Returns [] \<and>
   history (healthy_net ''tushare'') 1000000 = Returns [] \<and>
   history (healthy_net ''akshare'') 1000000 = Returns [] \<and>
   history (healthy_net ''eastmoney'') 1000000 = Returns [] \<and>
   history (healthy_net ''qqstock'') 1000000 = Returns [] \<and>
   history (healthy_net ''wangyi'') 1000000 = Returns [] \<and>
   get_stock_data healthy_net healthy_manager 739252 [] 1000000 False = Inl OverflowError"
proof -
  have "get_stock_data healthy_net healthy_manager 739252 [] 1000000 False = Inl OverflowError"
    by (simp add: get_stock_data_def days_before_def timedelta_def datetime_minus_def)
  moreover have "get_available_sources healthy_manager
     = [''sina'', ''tushare'', ''akshare'', ''eastmoney'', ''qqstock'', ''wangyi'']"
    by (simp add: get_available_sources_def healthy_manager_def)
  ultimately show ?thesis
    using swapped_healthy_manager by (simp add: healthy_net_def)
qed

text \<open>
  When a source has data for the 30-day window, the second pass ends at the first such
  source and its frame is returned.
\<close>

lemma short_window_retry_success:
  assumes "get_data_source_manager net config = Inr m"
    and "force_update \<or> db = [] \<or> real (length db) < real_of_int days * 0.8"
    and "30 < days" and "days < today" and "today \<le> 3652059"
    and "\<forall>n \<in> set (get_available_sources m).
           history (net n) days = Raises \<or> history (net n) days = Returns []"
    and "get_available_sources m = pre @ a # post"
    and "\<forall>n \<in> set pre. history (net n) 30 = Raises \<or> history (net n) 30 = Returns []"
    and "history (net a) 30 = Returns rows" and "rows \<noteq> []"
  shows "get_stock_data net m today db days force_update
       = Inr (rows, map (\<lambda>n. (n, days)) (get_available_sources m)
                    @ map (\<lambda>n. (n, 30)) (pre @ [a]))"
proof -
  let ?av = "get_available_sources m"
  have c: "\<exists>s. get_source_by_name m n = Some s \<and> is_connected s" if "n \<in> set ?av" for n
    using available_lookup [OF assms(1) that] .
  have p1: "fetch_pass net m days ?av ([], []) = ([], [] @ map (\<lambda>n. (n, days)) ?av)"
    by (rule fetch_pass_all_empty) (use c assms(6) in blast)+
  have p2: "fetch_pass net m 30 (pre @ a # post) ([], map (\<lambda>n. (n, days)) ?av)
          = (rows, map (\<lambda>n. (n, days)) ?av @ map (\<lambda>n. (n, 30)) (pre @ [a]))"
  proof (rule fetch_pass_first_success)
    fix n assume "n \<in> set (pre @ a # post)"
    then show "\<exists>s. get_source_by_name m n = Some s \<and> is_connected s"
      using c [of n] by (simp add: assms(7))
  next
    fix n assume "n \<in> set pre"
    then show "history (net n) 30 = Raises \<or> history (net n) 30 = Returns []"
      using assms(8) by blast
  qed (rule assms(9), rule assms(10))
  from assms(2) have nc: "\<not> (\<not> force_update \<and> db \<noteq> [] \<and> real_of_int days * 0.8 \<le> real (length db))"
    by auto
  have d1: "days_before today days = Inr (today - days)"
    by (rule days_before_Inr) (use assms(3-5) in simp_all)
  have d2: "days_before today 30 = Inr (today - 30)"
    by (rule days_before_Inr) (use assms(3-5) in simp_all)
  show ?thesis
    unfolding get_stock_data_def d1 d2 sum.case if_not_P [OF nc] Let_def
    using p1 p2 [folded assms(7)] assms(3) by simp
qed

end
